theory Spec2Isabelle
  imports Complex_Main "HOL-Library.Sublist"
begin

section \<open>Distance trellis plots: data model\<close>

text \<open>
  The development embeds \<^verbatim>\<open>DistanceIMTTrellis.py\<close>: the two classes
  \<^verbatim>\<open>DistanceIMTTrellis\<close> (mean plots) and \<^verbatim>\<open>DistanceSigmaIMTTrellis\<close>
  (standard-deviation plots). Python exceptions are values of \<open>py_error\<close>; a statement
  sequence that mutates objects returns the exception raised, if any, together with the
  state of the mutated objects at that moment. Floating point numbers are only created
  (\<^verbatim>\<open>np.zeros\<close>), stored and copied by this code, so they are modelled as reals.
\<close>

datatype py_error =
    KeyError | IndexError | TypeError | ValueError | AttributeError | AssertionError
  | OtherError string

text \<open>
  A table entry is either a two-dimensional numpy array (its number of columns and its
  rows) or the Python list \<^verbatim>\<open>[]\<close> that the collector stores for an unsupported pair.
\<close>

datatype entry = NdArray nat "real list list" | EmptyList

fun shape :: "entry \<Rightarrow> (nat \<times> nat) option" where
  "shape (NdArray n rs) = Some (length rs, n)"
| "shape EmptyList = None"

text \<open>\<^verbatim>\<open>np.zeros([r, n], dtype=float)\<close>\<close>

definition np_zeros :: "nat \<Rightarrow> nat \<Rightarrow> entry" where
  "np_zeros r n = NdArray n (replicate r (replicate n 0))"

text \<open>
  Assigning a one-dimensional array to a row of \<open>n\<close> columns: numpy accepts an array of
  \<open>n\<close> elements, stretches an array of one element, and raises ValueError otherwise.
\<close>

definition broadcast_to :: "nat \<Rightarrow> real list \<Rightarrow> py_error + real list" where
  "broadcast_to n v =
     (if length v = n then Inr v
      else if length v = 1 then Inr (replicate n (hd v))
      else Inl ValueError)"

text \<open>\<^verbatim>\<open>a[iloc, :] = v\<close>\<close>

fun set_row :: "entry \<Rightarrow> nat \<Rightarrow> real list \<Rightarrow> py_error + entry" where
  "set_row (NdArray n rs) iloc v =
     (if iloc < length rs
      then (case broadcast_to n v of
              Inl e \<Rightarrow> Inl e
            | Inr r \<Rightarrow> Inr (NdArray n (rs[iloc := r])))
      else Inl IndexError)"
| "set_row EmptyList iloc v = Inl TypeError"

text \<open>\<^verbatim>\<open>a[0, :]\<close>: a list cannot be indexed by a tuple; an array needs a row 0.\<close>

fun first_row :: "entry \<Rightarrow> py_error + real list" where
  "first_row (NdArray n []) = Inl IndexError"
| "first_row (NdArray n (r # rs)) = Inr r"
| "first_row EmptyList = Inl TypeError"

text \<open>The value table \<^verbatim>\<open>gmvs\<close>: GMPE class name, then intensity measure.\<close>

type_synonym gmv_table = "string \<rightharpoonup> (string \<rightharpoonup> entry)"

text \<open>\<^verbatim>\<open>gmvs[name][i_m]\<close>\<close>

definition getitem2 :: "gmv_table \<Rightarrow> string \<Rightarrow> string \<Rightarrow> py_error + entry" where
  "getitem2 t name i_m =
     (case t name of
        None \<Rightarrow> Inl KeyError
      | Some d \<Rightarrow> (case d i_m of None \<Rightarrow> Inl KeyError | Some a \<Rightarrow> Inr a))"

text \<open>\<^verbatim>\<open>gmvs[name][i_m] = a\<close>\<close>

definition setitem2 :: "gmv_table \<Rightarrow> string \<Rightarrow> string \<Rightarrow> entry \<Rightarrow> py_error + gmv_table" where
  "setitem2 t name i_m a =
     (case t name of
        None \<Rightarrow> Inl KeyError
      | Some d \<Rightarrow> Inr (t(name \<mapsto> d(i_m \<mapsto> a))))"

text \<open>\<^verbatim>\<open>gmvs[name][i_m][0, :]\<close>, the y argument of the draw calls\<close>

definition row0 :: "gmv_table \<Rightarrow> string \<Rightarrow> string \<Rightarrow> py_error + real list" where
  "row0 t name i_m =
     (case getitem2 t name i_m of Inl e \<Rightarrow> Inl e | Inr a \<Rightarrow> first_row a)"

text \<open>
  The distance context is an object whose attributes are read by name
  (\<^verbatim>\<open>getattr(self.dctx, self.distance_type)\<close>): a map from attribute names to arrays.
\<close>

type_synonym dctx = "string \<rightharpoonup> real list"

text \<open>
  A GMPE is an object of the hazard library: its class name and its method
  \<^verbatim>\<open>get_mean_and_stddevs(sctx, rctx, dctx, imt, stddev_types)\<close>, which returns the
  mean array and the list of standard-deviation arrays, or raises.
\<close>

record ('s, 'r, 'i) gmpe =
  class_name :: string
  get_mean_and_stddevs ::
    "'s \<Rightarrow> 'r \<Rightarrow> dctx \<Rightarrow> 'i \<Rightarrow> string list \<Rightarrow> py_error + (real list \<times> real list list)"

text \<open>
  The two classes of the file; \<^verbatim>\<open>self._build_plot\<close> and \<^verbatim>\<open>self._set_labels\<close> are
  looked up in the class of the object.
\<close>

datatype trellis_class = DistanceIMTTrellis | DistanceSigmaIMTTrellis

text \<open>The attributes of \<^verbatim>\<open>self\<close> that the two classes read; the base class sets them.\<close>

record ('s, 'r, 'i) trellis =
  cls :: trellis_class
  gsims :: "('s, 'r, 'i) gmpe list"
  imts :: "string list"
  rctx :: "'r list"
  sctx :: 's
  dctx :: dctx
  nsites :: nat
  stddevs :: string
  distance_type :: string
  plot_type :: string

section \<open>The standard-deviation value collector\<close>

text \<open>
  The collector mutates the table and calls the hazard library. Its state is the table
  and the trace of the rows whose \<^verbatim>\<open>try\<close> body was entered: GMPE class name,
  intensity measure and row index.
\<close>

record collector =
  gmvs :: gmv_table
  rows_entered :: "(string \<times> string \<times> nat) list"

text \<open>
  The right-hand side of the assignment in the \<^verbatim>\<open>try\<close> body: the arguments are
  evaluated first (\<^verbatim>\<open>imt.from_string(i_m)\<close> may raise), then the GMPE is called, then
  \<^verbatim>\<open>sigmas[0]\<close> is read. The parser \<^verbatim>\<open>imt.from_string\<close> of the hazard library is a
  parameter.
\<close>

definition sigma_row ::
  "(string \<Rightarrow> py_error + 'i) \<Rightarrow> ('s, 'r, 'i) trellis \<Rightarrow> ('s, 'r, 'i) gmpe \<Rightarrow> string \<Rightarrow> 'r
    \<Rightarrow> py_error + real list" where
  "sigma_row from_string self g i_m rct =
     (case from_string i_m of
        Inl e \<Rightarrow> Inl e
      | Inr im \<Rightarrow>
          (case get_mean_and_stddevs g (sctx self) rct (dctx self) im [stddevs self] of
             Inl e \<Rightarrow> Inl e
           | Inr (mean, sigmas) \<Rightarrow>
               (case sigmas of [] \<Rightarrow> Inl IndexError | s0 # rest \<Rightarrow> Inr s0)))"

text \<open>The \<^verbatim>\<open>try\<close> body for row \<open>iloc\<close>; the array is updated in place.\<close>

definition try_body ::
  "(string \<Rightarrow> py_error + 'i) \<Rightarrow> ('s, 'r, 'i) trellis \<Rightarrow> ('s, 'r, 'i) gmpe \<Rightarrow> string \<Rightarrow> nat \<Rightarrow> 'r
    \<Rightarrow> collector \<Rightarrow> py_error option \<times> collector" where
  "try_body from_string self g i_m iloc rct c =
     (let c1 = c\<lparr>rows_entered := rows_entered c @ [(class_name g, i_m, iloc)]\<rparr> in
      case sigma_row from_string self g i_m rct of
        Inl e \<Rightarrow> (Some e, c1)
      | Inr s0 \<Rightarrow>
          (case getitem2 (gmvs c1) (class_name g) i_m of
             Inl e \<Rightarrow> (Some e, c1)
           | Inr a \<Rightarrow>
               (case set_row a iloc s0 of
                  Inl e \<Rightarrow> (Some e, c1)
                | Inr a' \<Rightarrow>
                    (case setitem2 (gmvs c1) (class_name g) i_m a' of
                       Inl e \<Rightarrow> (Some e, c1)
                     | Inr t \<Rightarrow> (None, c1\<lparr>gmvs := t\<rparr>)))))"

text \<open>
  \<^verbatim>\<open>for iloc, rct in enumerate(self.rctx)\<close> with its handler: a KeyError stores
  \<^verbatim>\<open>[]\<close> and leaves the loop, any other exception goes on to the caller.
\<close>

fun rctx_loop ::
  "(string \<Rightarrow> py_error + 'i) \<Rightarrow> ('s, 'r, 'i) trellis \<Rightarrow> ('s, 'r, 'i) gmpe \<Rightarrow> string \<Rightarrow> nat
    \<Rightarrow> 'r list \<Rightarrow> collector \<Rightarrow> py_error option \<times> collector" where
  "rctx_loop from_string self g i_m iloc [] c = (None, c)"
| "rctx_loop from_string self g i_m iloc (rct # rest) c =
     (case try_body from_string self g i_m iloc rct c of
        (None, c') \<Rightarrow> rctx_loop from_string self g i_m (Suc iloc) rest c'
      | (Some e, c') \<Rightarrow>
          (if e = KeyError
           then (case setitem2 (gmvs c') (class_name g) i_m EmptyList of
                   Inl e' \<Rightarrow> (Some e', c')
                 | Inr t \<Rightarrow> (None, c'\<lparr>gmvs := t\<rparr>))
           else (Some e, c')))"

text \<open>\<^verbatim>\<open>for i_m in self.imts\<close>\<close>

fun imts_loop ::
  "(string \<Rightarrow> py_error + 'i) \<Rightarrow> ('s, 'r, 'i) trellis \<Rightarrow> ('s, 'r, 'i) gmpe \<Rightarrow> string list
    \<Rightarrow> collector \<Rightarrow> py_error option \<times> collector" where
  "imts_loop from_string self g [] c = (None, c)"
| "imts_loop from_string self g (i_m # rest) c =
     (case setitem2 (gmvs c) (class_name g) i_m (np_zeros (length (rctx self)) (nsites self)) of
        Inl e \<Rightarrow> (Some e, c)
      | Inr t \<Rightarrow>
          (case rctx_loop from_string self g i_m 0 (rctx self) (c\<lparr>gmvs := t\<rparr>) of
             (None, c') \<Rightarrow> imts_loop from_string self g rest c'
           | (Some e, c') \<Rightarrow> (Some e, c')))"

text \<open>\<^verbatim>\<open>for gmpe in self.gsims\<close>; \<^verbatim>\<open>gmvs.update([(name, {})])\<close> resets the name's dictionary.\<close>

fun gsims_loop ::
  "(string \<Rightarrow> py_error + 'i) \<Rightarrow> ('s, 'r, 'i) trellis \<Rightarrow> ('s, 'r, 'i) gmpe list
    \<Rightarrow> collector \<Rightarrow> py_error option \<times> collector" where
  "gsims_loop from_string self [] c = (None, c)"
| "gsims_loop from_string self (g # rest) c =
     (case imts_loop from_string self g (imts self)
             (c\<lparr>gmvs := (gmvs c)(class_name g \<mapsto> Map.empty)\<rparr>) of
        (None, c') \<Rightarrow> gsims_loop from_string self rest c'
      | (Some e, c') \<Rightarrow> (Some e, c'))"

text \<open>
  \<^verbatim>\<open>DistanceSigmaIMTTrellis.get_ground_motion_values\<close>: the table returned or the
  exception raised, and the trace of the rows entered.
\<close>

definition get_ground_motion_values ::
  "(string \<Rightarrow> py_error + 'i) \<Rightarrow> ('s, 'r, 'i) trellis
    \<Rightarrow> (py_error + gmv_table) \<times> (string \<times> string \<times> nat) list" where
  "get_ground_motion_values from_string self =
     (case gsims_loop from_string self (gsims self) \<lparr>gmvs = Map.empty, rows_entered = []\<rparr> of
        (None, c) \<Rightarrow> (Inr (gmvs c), rows_entered c)
      | (Some e, c) \<Rightarrow> (Inl e, rows_entered c))"

subsection \<open>The collector as a function of the row outcomes\<close>

text \<open>
  The functions of this subsection are not in the source: they describe what the loops
  above compute, and the properties of the collector are stated with them. The lemmas
  \<open>try_body_run\<close>, \<open>rctx_loop_run\<close>, \<open>imts_loop_run\<close> and \<open>gsims_loop_run\<close> prove that
  the loops compute them.

  What the \<^verbatim>\<open>try\<close> body does for one rupture context, apart from the table: the row
  that it stores (the standard deviations, stretched to the row's length), or the
  exception that it raises.
\<close>

definition row_outcome ::
  "(string \<Rightarrow> py_error + 'i) \<Rightarrow> ('s, 'r, 'i) trellis \<Rightarrow> ('s, 'r, 'i) gmpe \<Rightarrow> string \<Rightarrow> 'r
    \<Rightarrow> py_error + real list" where
  "row_outcome from_string self g i_m rct =
     (case sigma_row from_string self g i_m rct of
        Inl e \<Rightarrow> Inl e
      | Inr s0 \<Rightarrow> broadcast_to (nsites self) s0)"

text \<open>
  The rows loop on one entry, given the outcomes of the rows from \<open>iloc\<close> on: the
  exception that leaves the loop, the entry, and the index after the last row entered.
\<close>

fun fill_rows ::
  "nat \<Rightarrow> nat \<Rightarrow> (py_error + real list) list \<Rightarrow> real list list
    \<Rightarrow> py_error option \<times> entry \<times> nat" where
  "fill_rows n iloc [] rows = (None, NdArray n rows, iloc)"
| "fill_rows n iloc (Inr row # outs) rows = fill_rows n (Suc iloc) outs (rows[iloc := row])"
| "fill_rows n iloc (Inl e # outs) rows =
     (if e = KeyError then (None, EmptyList, Suc iloc) else (Some e, NdArray n rows, Suc iloc))"

definition pair_result ::
  "(string \<Rightarrow> py_error + 'i) \<Rightarrow> ('s, 'r, 'i) trellis \<Rightarrow> ('s, 'r, 'i) gmpe \<Rightarrow> string
    \<Rightarrow> py_error option \<times> entry \<times> nat" where
  "pair_result from_string self g i_m =
     fill_rows (nsites self) 0 (map (row_outcome from_string self g i_m) (rctx self))
       (replicate (length (rctx self)) (replicate (nsites self) 0))"

text \<open>
  Its three components: the exception that the pair raises to the caller, the entry that
  it leaves in the table, and the number of rows entered.
\<close>

definition pair_error ::
  "(string \<Rightarrow> py_error + 'i) \<Rightarrow> ('s, 'r, 'i) trellis \<Rightarrow> ('s, 'r, 'i) gmpe \<Rightarrow> string
    \<Rightarrow> py_error option" where
  "pair_error from_string self g i_m = fst (pair_result from_string self g i_m)"

definition pair_entry ::
  "(string \<Rightarrow> py_error + 'i) \<Rightarrow> ('s, 'r, 'i) trellis \<Rightarrow> ('s, 'r, 'i) gmpe \<Rightarrow> string
    \<Rightarrow> entry" where
  "pair_entry from_string self g i_m = fst (snd (pair_result from_string self g i_m))"

definition pair_rows ::
  "(string \<Rightarrow> py_error + 'i) \<Rightarrow> ('s, 'r, 'i) trellis \<Rightarrow> ('s, 'r, 'i) gmpe \<Rightarrow> string
    \<Rightarrow> nat" where
  "pair_rows from_string self g i_m = snd (snd (pair_result from_string self g i_m))"

text \<open>The first exception of a sequence of outcomes.\<close>

fun first_error :: "py_error option list \<Rightarrow> py_error option" where
  "first_error [] = None"
| "first_error (None # os) = first_error os"
| "first_error (Some e # os) = Some e"

section \<open>The renderers\<close>

text \<open>
  The charting surface is matplotlib's \<^verbatim>\<open>Axes\<close>, which the module only calls; the model keeps
  the part of its state that the calls of \<^verbatim>\<open>_build_plot\<close> and \<^verbatim>\<open>_set_labels\<close> write.
  A drawn line remembers the draw call that made it (\<^verbatim>\<open>ax.semilogy\<close>, \<^verbatim>\<open>ax.loglog\<close>,
  \<^verbatim>\<open>ax.semilogx\<close> or \<^verbatim>\<open>ax.plot\<close>), its data, format string, line width and label; a
  label is stored with its font size.
\<close>

datatype draw_call = Semilogy | Loglog | Semilogx | Plot

record line2d =
  drawn_by :: draw_call
  xdata :: "real list"
  ydata :: "real list"
  fmt :: string
  linewidth :: real
  line_label :: string

text \<open>
  The scale of an axis, and its x-limits. The limits are \<open>Autoscaled\<close> until
  \<^verbatim>\<open>ax.set_xlim\<close> is called. \<open>Limits l r\<close> says that \<^verbatim>\<open>ax.set_xlim(l, r)\<close> was the last such
  call and that the axis runs from \<open>l\<close> to \<open>r\<close>. \<open>Requested l r\<close> says that
  \<^verbatim>\<open>ax.set_xlim(l, r)\<close> was the last such call and that matplotlib may replace what it
  was given, so that the limits of the axis are not known here.
\<close>

datatype axis_scale = LinearScale | LogScale | OtherScale

datatype xlim = Autoscaled | Limits real real | Requested real real

record axes =
  ax_lines :: "line2d list"
  ax_grid :: bool
  ax_xscale :: axis_scale
  ax_yscale :: axis_scale
  ax_xlim :: xlim
  ax_xlabel :: "(string \<times> nat) option"
  ax_ylabel :: "(string \<times> nat) option"

text \<open>
  The scales that a draw call sets before it draws: \<^verbatim>\<open>semilogy\<close> makes the y axis
  logarithmic, \<^verbatim>\<open>semilogx\<close> the x axis, \<^verbatim>\<open>loglog\<close> both, and \<^verbatim>\<open>plot\<close> leaves the
  scales as they are.
\<close>

fun set_scales :: "draw_call \<Rightarrow> axes \<Rightarrow> axes" where
  "set_scales Semilogy a = a\<lparr>ax_yscale := LogScale\<rparr>"
| "set_scales Loglog a = a\<lparr>ax_xscale := LogScale, ax_yscale := LogScale\<rparr>"
| "set_scales Semilogx a = a\<lparr>ax_xscale := LogScale\<rparr>"
| "set_scales Plot a = a"

text \<open>
  One draw call \<^verbatim>\<open>ax.<call>(x, y, '-', linewidth=2.0, label=name)\<close>: the scales are set,
  then matplotlib raises ValueError when \<open>x\<close> and \<open>y\<close> differ in length, and otherwise adds
  the line and returns it.
\<close>

definition ax_draw ::
  "draw_call \<Rightarrow> real list \<Rightarrow> real list \<Rightarrow> string \<Rightarrow> axes \<Rightarrow> (py_error + line2d) \<times> axes" where
  "ax_draw call x y name a =
     (let a1 = set_scales call a in
      if length x = length y
      then (let line = \<lparr>drawn_by = call, xdata = x, ydata = y, fmt = ''-'',
                         linewidth = 2, line_label = name\<rparr>
            in (Inr line, a1\<lparr>ax_lines := ax_lines a1 @ [line]\<rparr>))
      else (Inl ValueError, a1))"

text \<open>
  \<^verbatim>\<open>ax.set_xlim(l, r)\<close>. Matplotlib takes the two limits as they are given, also when
  \<open>l\<close> is above \<open>r\<close>, unless they are singular or the scale cannot show them: it widens
  limits that are equal or closer to each other than \<^verbatim>\<open>1e-15\<close> of their magnitude, or
  both of magnitude below \<^verbatim>\<open>1e21\<close> times the smallest normal float
  (\<^verbatim>\<open>nonsingular\<close>), and on a logarithmic axis it ignores a limit that is not
  positive. The limits count as taken as given when they are clear of the two bounds, by
  a factor of 2 for the distance and of 10 for the magnitude, so that the rounding of the
  bounds in floating point does not matter. Nothing is taken as given on a scale other
  than the linear and the logarithmic one.
\<close>

definition taken_as_given :: "axis_scale \<Rightarrow> real \<Rightarrow> real \<Rightarrow> bool" where
  "taken_as_given sc l r =
     (10 ^ 22 / 2 ^ 1022 \<le> max \<bar>l\<bar> \<bar>r\<bar> \<and> 2 * max \<bar>l\<bar> \<bar>r\<bar> / 10 ^ 15 < \<bar>r - l\<bar> \<and>
      (sc = LinearScale \<or> sc = LogScale \<and> 0 < l \<and> 0 < r))"

definition ax_set_xlim :: "real \<Rightarrow> real \<Rightarrow> axes \<Rightarrow> axes" where
  "ax_set_xlim l r a =
     a\<lparr>ax_xlim := (if taken_as_given (ax_xscale a) l r then Limits l r else Requested l r)\<rparr>"

text \<open>The module's tables \<^verbatim>\<open>PLOT_UNITS\<close> and \<^verbatim>\<open>DISTANCE_LABEL_MAP\<close>.\<close>

definition PLOT_UNITS :: "string \<rightharpoonup> string" where
  "PLOT_UNITS = map_of
     [(''PGA'', ''g''), (''PGV'', ''cm/s''), (''SA'', ''g''), (''IA'', ''m/s''),
      (''CSV'', ''g-sec''), (''RSD'', ''s''), (''MMI'', [])]"

definition DISTANCE_LABEL_MAP :: "string \<rightharpoonup> string" where
  "DISTANCE_LABEL_MAP = map_of
     [(''repi'', ''Epicentral Dist.''), (''rhypo'', ''Hypocentral Dist.''),
      (''rjb'', ''Joyner-Boore Dist.''), (''rrup'', ''Rupture Dist.''),
      (''rx'', ''Rx Dist.'')]"

text \<open>Python's \<^verbatim>\<open>p in s\<close> on strings: \<open>p\<close> occurs in \<open>s\<close> as a substring.\<close>

fun py_in :: "string \<Rightarrow> string \<Rightarrow> bool" where
  "py_in p [] = (p = [])"
| "py_in p (c # cs) = (prefix p (c # cs) \<or> py_in p cs)"

text \<open>\<^verbatim>\<open>DistanceIMTTrellis._set_labels\<close>\<close>

definition DistanceIMTTrellis_set_labels ::
  "('s, 'r, 'i) trellis \<Rightarrow> string \<Rightarrow> axes \<Rightarrow> py_error option \<times> axes" where
  "DistanceIMTTrellis_set_labels self i_m a =
     (case DISTANCE_LABEL_MAP (distance_type self) of
        None \<Rightarrow> (Some KeyError, a)
      | Some d \<Rightarrow>
          (let a1 = a\<lparr>ax_xlabel := Some (d @ '' (km)'', 16)\<rparr> in
           case (if py_in ''SA('' i_m then PLOT_UNITS ''SA'' else PLOT_UNITS i_m) of
             None \<Rightarrow> (Some KeyError, a1)
           | Some units \<Rightarrow>
               (None, a1\<lparr>ax_ylabel := Some (''Median '' @ i_m @ '' ('' @ units @ '')'', 16)\<rparr>)))"

text \<open>\<^verbatim>\<open>DistanceSigmaIMTTrellis._set_labels\<close>\<close>

definition DistanceSigmaIMTTrellis_set_labels ::
  "('s, 'r, 'i) trellis \<Rightarrow> string \<Rightarrow> axes \<Rightarrow> py_error option \<times> axes" where
  "DistanceSigmaIMTTrellis_set_labels self i_m a =
     (case DISTANCE_LABEL_MAP (distance_type self) of
        None \<Rightarrow> (Some KeyError, a)
      | Some d \<Rightarrow>
          (let a1 = a\<lparr>ax_xlabel := Some (d @ '' (km)'', 16)\<rparr> in
           (None, a1\<lparr>ax_ylabel := Some (stddevs self @ '' Std. Dev.'', 16)\<rparr>)))"

text \<open>\<^verbatim>\<open>self._set_labels(i_m, ax)\<close>: the method of the object's class.\<close>

definition set_labels ::
  "('s, 'r, 'i) trellis \<Rightarrow> string \<Rightarrow> axes \<Rightarrow> py_error option \<times> axes" where
  "set_labels self i_m a =
     (case cls self of
        DistanceIMTTrellis \<Rightarrow> DistanceIMTTrellis_set_labels self i_m a
      | DistanceSigmaIMTTrellis \<Rightarrow> DistanceSigmaIMTTrellis_set_labels self i_m a)"

text \<open>
  The two \<^verbatim>\<open>_build_plot\<close> methods have the same text except for the test on
  \<^verbatim>\<open>self.plot_type\<close> and the draw calls of its two branches.
\<close>

definition DistanceIMTTrellis_draw_call :: "string \<Rightarrow> draw_call" where
  "DistanceIMTTrellis_draw_call pt = (if pt = ''semilogy'' then Semilogy else Loglog)"

definition DistanceSigmaIMTTrellis_draw_call :: "string \<Rightarrow> draw_call" where
  "DistanceSigmaIMTTrellis_draw_call pt = (if pt = ''loglog'' then Semilogx else Plot)"

definition draw_call_of :: "trellis_class \<Rightarrow> string \<Rightarrow> draw_call" where
  "draw_call_of c pt =
     (case c of
        DistanceIMTTrellis \<Rightarrow> DistanceIMTTrellis_draw_call pt
      | DistanceSigmaIMTTrellis \<Rightarrow> DistanceSigmaIMTTrellis_draw_call pt)"

text \<open>
  What a rendering call mutates: \<^verbatim>\<open>self.labels\<close>, \<^verbatim>\<open>self.lines\<close> and the axes.
\<close>

record renderer =
  labels :: "string list"
  lines :: "line2d list"
  ax :: axes

text \<open>
  The body of \<^verbatim>\<open>for gmpe in self.gsims\<close> of \<^verbatim>\<open>_build_plot\<close>, in statement order:
  the label is appended, the arguments of the draw call are evaluated
  (\<^verbatim>\<open>gmvs[name][i_m][0, :]\<close>), the line is drawn, \<^verbatim>\<open>distance_vals[0]\<close> and
  \<^verbatim>\<open>distance_vals[-1]\<close> are read, the line handle is appended, the grid is switched
  on, \<^verbatim>\<open>ax.set_xlim(min_x, max_x)\<close> is called and the labels are set.
\<close>

definition plot_gmpe ::
  "('s, 'r, 'i) trellis \<Rightarrow> string \<Rightarrow> gmv_table \<Rightarrow> real list \<Rightarrow> ('s, 'r, 'i) gmpe
    \<Rightarrow> renderer \<Rightarrow> py_error option \<times> renderer" where
  "plot_gmpe self i_m t distance_vals g r =
     (let r1 = r\<lparr>labels := labels r @ [class_name g]\<rparr> in
      case row0 t (class_name g) i_m of
        Inl e \<Rightarrow> (Some e, r1)
      | Inr y \<Rightarrow>
          (case ax_draw (draw_call_of (cls self) (plot_type self))
                  distance_vals y (class_name g) (ax r1) of
             (Inl e, a1) \<Rightarrow> (Some e, r1\<lparr>ax := a1\<rparr>)
           | (Inr line, a1) \<Rightarrow>
               (if distance_vals = [] then (Some IndexError, r1\<lparr>ax := a1\<rparr>)
                else
                  (let min_x = hd distance_vals;
                       max_x = last distance_vals;
                       r2 = r1\<lparr>lines := lines r1 @ [line],
                               ax := ax_set_xlim min_x max_x (a1\<lparr>ax_grid := True\<rparr>)\<rparr>
                   in case set_labels self i_m (ax r2) of
                        (e, a3) \<Rightarrow> (e, r2\<lparr>ax := a3\<rparr>)))))"

text \<open>The loop: an exception raised by the body ends it.\<close>

fun gmpe_loop ::
  "('s, 'r, 'i) trellis \<Rightarrow> string \<Rightarrow> gmv_table \<Rightarrow> real list \<Rightarrow> ('s, 'r, 'i) gmpe list
    \<Rightarrow> renderer \<Rightarrow> py_error option \<times> renderer" where
  "gmpe_loop self i_m t distance_vals [] r = (None, r)"
| "gmpe_loop self i_m t distance_vals (g # rest) r =
     (case plot_gmpe self i_m t distance_vals g r of
        (None, r') \<Rightarrow> gmpe_loop self i_m t distance_vals rest r'
      | (Some e, r') \<Rightarrow> (Some e, r'))"

text \<open>
  \<^verbatim>\<open>_build_plot(self, ax, i_m, gmvs)\<close> of either class: the lists are reset, the
  distance values are read by attribute name, the plot type is asserted, the loop runs.
\<close>

definition build_plot ::
  "('s, 'r, 'i) trellis \<Rightarrow> axes \<Rightarrow> string \<Rightarrow> gmv_table \<Rightarrow> py_error option \<times> renderer" where
  "build_plot self a i_m t =
     (let r0 = \<lparr>labels = [], lines = [], ax = a\<rparr> in
      case dctx self (distance_type self) of
        None \<Rightarrow> (Some AttributeError, r0)
      | Some distance_vals \<Rightarrow>
          (if plot_type self = ''loglog'' \<or> plot_type self = ''semilogy''
           then gmpe_loop self i_m t distance_vals (gsims self) r0
           else (Some AssertionError, r0)))"

text \<open>The line that a draw call of \<^verbatim>\<open>_build_plot\<close> creates.\<close>

definition new_line :: "('s, 'r, 'i) trellis \<Rightarrow> real list \<Rightarrow> real list \<Rightarrow> string \<Rightarrow> line2d" where
  "new_line self x y name =
     \<lparr>drawn_by = draw_call_of (cls self) (plot_type self), xdata = x, ydata = y, fmt = ''-'',
      linewidth = 2, line_label = name\<rparr>"

section \<open>Example inputs\<close>

text \<open>
  A fresh axes object, a GMPE whose standard deviation is given by a function of the
  rupture context and the intensity measure and whose mean is the standard deviation plus
  100, and the trellis of one GMPE plotted against the Joyner-Boore distances 1, 10, 50
  and 100 km.
\<close>

definition fresh_axes :: axes where
  "fresh_axes =
     \<lparr>ax_lines = [], ax_grid = False, ax_xscale = LinearScale, ax_yscale = LinearScale,
      ax_xlim = Autoscaled, ax_xlabel = None, ax_ylabel = None\<rparr>"

definition example_gmpe ::
  "string \<Rightarrow> (nat \<Rightarrow> string \<Rightarrow> py_error + real list) \<Rightarrow> (unit, nat, string) gmpe" where
  "example_gmpe name f =
     \<lparr>class_name = name,
      get_mean_and_stddevs =
        (\<lambda>s rct d im kinds.
           case f rct im of Inl e \<Rightarrow> Inl e | Inr v \<Rightarrow> Inr (map (\<lambda>x. x + 100) v, [v]))\<rparr>"

definition example_trellis :: "(unit, nat, string) trellis" where
  "example_trellis =
     \<lparr>cls = DistanceIMTTrellis,
      gsims = [example_gmpe ''GmpeA'' (\<lambda>rct im. Inr [5, 6, 7, 8])],
      imts = [''PGA''], rctx = [6], sctx = (),
      dctx = [''rjb'' \<mapsto> [1, 10, 50, 100]], nsites = 4, stddevs = ''Total'',
      distance_type = ''rjb'', plot_type = ''semilogy''\<rparr>"

definition example_gmvs :: gmv_table where
  "example_gmvs = [''GmpeA'' \<mapsto> [''PGA'' \<mapsto> NdArray 4 [[4, 3, 2, 1], [8, 7, 6, 5]]]]"

text \<open>
  A standard-deviation trellis of two GMPEs, two intensity measures and three rupture
  contexts: the second GMPE does not support \<^verbatim>\<open>PGV\<close> for the second rupture context.
  In the last trellis the GMPE supports no \<^verbatim>\<open>PGA\<close> and fails on the second rupture
  context with an exception of its own.
\<close>

definition sigma_trellis :: "(unit, nat, string) trellis" where
  "sigma_trellis =
     \<lparr>cls = DistanceSigmaIMTTrellis,
      gsims = [example_gmpe ''GmpeA'' (\<lambda>rct im. Inr [5, 6, 7, 8]),
               example_gmpe ''GmpeB''
                 (\<lambda>rct im. if im = ''PGV'' \<and> rct = 7 then Inl KeyError else Inr [1, 2, 3, 4])],
      imts = [''PGA'', ''PGV''], rctx = [6, 7, 8], sctx = (),
      dctx = [''rjb'' \<mapsto> [1, 10, 50, 100]], nsites = 4, stddevs = ''Total'',
      distance_type = ''rjb'', plot_type = ''loglog''\<rparr>"




definition twin_trellis :: "(unit, nat, string) trellis" where
  "twin_trellis =
     sigma_trellis\<lparr>gsims := [example_gmpe ''GmpeA'' (\<lambda>rct im. Inr [5, 6, 7, 8]),
                             example_gmpe ''GmpeA'' (\<lambda>rct im. Inl KeyError)],
                   imts := [''PGA''], rctx := [6, 7]\<rparr>"

section \<open>Properties of the renderers\<close>

text \<open>The equations that evaluate the renderers and the collector on the examples.\<close>

lemmas render_eval =
  build_plot_def plot_gmpe_def row0_def getitem2_def ax_draw_def ax_set_xlim_def
  taken_as_given_def set_labels_def
  DistanceIMTTrellis_set_labels_def DistanceSigmaIMTTrellis_set_labels_def
  DISTANCE_LABEL_MAP_def PLOT_UNITS_def draw_call_of_def DistanceIMTTrellis_draw_call_def
  DistanceSigmaIMTTrellis_draw_call_def Let_def
  example_trellis_def example_gmvs_def example_gmpe_def fresh_axes_def

lemmas collect_eval =
  get_ground_motion_values_def try_body_def sigma_row_def getitem2_def setitem2_def
  np_zeros_def broadcast_to_def sigma_trellis_def example_gmpe_def

lemma set_scales_fields [simp]:
  "ax_lines (set_scales c a) = ax_lines a"
  "ax_grid (set_scales c a) = ax_grid a"
  "ax_xlim (set_scales c a) = ax_xlim a"
  "ax_xlabel (set_scales c a) = ax_xlabel a"
  "ax_ylabel (set_scales c a) = ax_ylabel a"
  by (cases c; simp)+

lemma set_scales_xscale:
  "ax_xscale (set_scales c a) = (if c = Loglog \<or> c = Semilogx then LogScale else ax_xscale a)"
  by (cases c) simp_all

lemma draw_call_of_log_x:
  "pt = ''loglog'' \<or> pt = ''semilogy'' \<Longrightarrow>
     draw_call_of k pt = Loglog \<or> draw_call_of k pt = Semilogx \<longleftrightarrow> pt = ''loglog''"
  by (cases k) (auto simp: draw_call_of_def DistanceIMTTrellis_draw_call_def
      DistanceSigmaIMTTrellis_draw_call_def)

lemma ax_set_xlim_fields [simp]:
  "ax_lines (ax_set_xlim l r a) = ax_lines a"
  "ax_grid (ax_set_xlim l r a) = ax_grid a"
  "ax_xscale (ax_set_xlim l r a) = ax_xscale a"
  "ax_yscale (ax_set_xlim l r a) = ax_yscale a"
  "ax_xlabel (ax_set_xlim l r a) = ax_xlabel a"
  "ax_ylabel (ax_set_xlim l r a) = ax_ylabel a"
  by (simp_all add: ax_set_xlim_def)

lemma set_labels_frame:
  "set_labels self i_m a = (e, a') \<Longrightarrow>
     ax_lines a' = ax_lines a \<and> ax_grid a' = ax_grid a \<and> ax_xlim a' = ax_xlim a \<and>
     ax_xscale a' = ax_xscale a \<and> ax_yscale a' = ax_yscale a"
  by (auto simp: set_labels_def DistanceIMTTrellis_set_labels_def
        DistanceSigmaIMTTrellis_set_labels_def Let_def
      split: trellis_class.splits option.splits if_splits)

lemma set_labels_error:
  "set_labels self i_m a = (Some e, a') \<Longrightarrow> e = KeyError"
  by (auto simp: set_labels_def DistanceIMTTrellis_set_labels_def
        DistanceSigmaIMTTrellis_set_labels_def Let_def
      split: trellis_class.splits option.splits if_splits)

lemma set_labels_unknown_distance:
  "DISTANCE_LABEL_MAP (distance_type self) = None \<Longrightarrow> set_labels self i_m a = (Some KeyError, a)"
  by (simp add: set_labels_def DistanceIMTTrellis_set_labels_def
        DistanceSigmaIMTTrellis_set_labels_def split: trellis_class.splits)

lemma plot_gmpe_cases:
  assumes "plot_gmpe self i_m t dv g r = (e, r')"
  obtains
    (row) er where "row0 t (class_name g) i_m = Inl er" "e = Some er"
      "r' = r\<lparr>labels := labels r @ [class_name g]\<rparr>"
  | (draw) y where "row0 t (class_name g) i_m = Inr y" "length dv \<noteq> length y"
      "e = Some ValueError"
      "r' = r\<lparr>labels := labels r @ [class_name g],
               ax := set_scales (draw_call_of (cls self) (plot_type self)) (ax r)\<rparr>"
  | (index) "row0 t (class_name g) i_m = Inr []" "dv = []" "e = Some IndexError"
      "r' = r\<lparr>labels := labels r @ [class_name g],
               ax := (set_scales (draw_call_of (cls self) (plot_type self)) (ax r))
                       \<lparr>ax_lines := ax_lines (ax r) @ [new_line self [] [] (class_name g)]\<rparr>\<rparr>"
  | (labels) y a3 where "row0 t (class_name g) i_m = Inr y" "length dv = length y" "dv \<noteq> []"
      "set_labels self i_m
         (ax_set_xlim (hd dv) (last dv)
            ((set_scales (draw_call_of (cls self) (plot_type self)) (ax r))
               \<lparr>ax_lines := ax_lines (ax r) @ [new_line self dv y (class_name g)],
                ax_grid := True\<rparr>)) = (e, a3)"
      "r' = r\<lparr>labels := labels r @ [class_name g],
               lines := lines r @ [new_line self dv y (class_name g)], ax := a3\<rparr>"
proof (cases "row0 t (class_name g) i_m")
  case (Inl er)
  with assms have "e = Some er" "r' = r\<lparr>labels := labels r @ [class_name g]\<rparr>"
    by (simp_all add: plot_gmpe_def)
  with Inl show ?thesis by (rule row)
next
  case (Inr y)
  show ?thesis
  proof (cases "length dv = length y")
    case False
    with Inr assms have "e = Some ValueError"
      "r' = r\<lparr>labels := labels r @ [class_name g],
               ax := set_scales (draw_call_of (cls self) (plot_type self)) (ax r)\<rparr>"
      by (simp_all add: plot_gmpe_def ax_draw_def Let_def)
    with Inr False show ?thesis by (rule draw)
  next
    case True
    show ?thesis
    proof (cases "dv = []")
      case dv: True
      with True have y: "y = []" by simp
      from Inr True dv y assms have "e = Some IndexError"
        "r' = r\<lparr>labels := labels r @ [class_name g],
               ax := (set_scales (draw_call_of (cls self) (plot_type self)) (ax r))
                       \<lparr>ax_lines := ax_lines (ax r) @ [new_line self [] [] (class_name g)]\<rparr>\<rparr>"
        by (simp_all add: plot_gmpe_def ax_draw_def new_line_def Let_def)
      with Inr[unfolded y] dv show ?thesis by (rule index)
    next
      case dv: False
      let ?a0 = "ax_set_xlim (hd dv) (last dv)
            ((set_scales (draw_call_of (cls self) (plot_type self)) (ax r))
               \<lparr>ax_lines := ax_lines (ax r) @ [new_line self dv y (class_name g)],
                ax_grid := True\<rparr>)"
      obtain e3 a3 where sl: "set_labels self i_m ?a0 = (e3, a3)"
        by (cases "set_labels self i_m ?a0")
      from Inr True dv sl assms have "e = e3"
        "r' = r\<lparr>labels := labels r @ [class_name g],
               lines := lines r @ [new_line self dv y (class_name g)], ax := a3\<rparr>"
        by (simp_all add: plot_gmpe_def ax_draw_def new_line_def Let_def)
      with Inr True dv sl show ?thesis by (auto intro: labels)
    qed
  qed
qed

lemma row0_error:
  assumes "row0 t name i_m = Inl e"
  shows "e = KeyError \<or> e = IndexError \<or> e = TypeError"
proof (cases "getitem2 t name i_m")
  case (Inl e')
  then have "e' = KeyError" by (auto simp: getitem2_def split: option.splits)
  with Inl assms show ?thesis by (simp add: row0_def)
next
  case (Inr a)
  with assms have "first_row a = Inl e" by (simp add: row0_def)
  then show ?thesis by (cases a rule: first_row.cases) auto
qed

lemma row0_EmptyList:
  "getitem2 t name i_m = Inr EmptyList \<Longrightarrow> row0 t name i_m = Inl TypeError"
  by (simp add: row0_def)

lemma plot_gmpe_row0_error:
  "row0 t (class_name g) i_m = Inl e \<Longrightarrow>
     plot_gmpe self i_m t dv g r = (Some e, r\<lparr>labels := labels r @ [class_name g]\<rparr>)"
  by (simp add: plot_gmpe_def)

lemma plot_gmpe_error:
  assumes "plot_gmpe self i_m t dv g r = (Some e, r')"
  shows "e = KeyError \<or> e = IndexError \<or> e = TypeError \<or> e = ValueError"
  using assms
proof (cases rule: plot_gmpe_cases)
  case (row er)
  then show ?thesis using row0_error by blast
next
  case (labels y a3)
  then show ?thesis using set_labels_error by blast
qed simp_all

lemma plot_gmpe_lines:
  assumes "plot_gmpe self i_m t dv g r = (e, r')"
  shows "\<exists>new. ax_lines (ax r') = ax_lines (ax r) @ new \<and>
           (\<forall>l\<in>set new. drawn_by l = draw_call_of (cls self) (plot_type self) \<and>
              row0 t (line_label l) i_m = Inr (ydata l))"
  using assms
proof (cases rule: plot_gmpe_cases)
  case (row er)
  then show ?thesis by simp
next
  case (draw y)
  then show ?thesis by simp
next
  case index
  then have "ax_lines (ax r') = ax_lines (ax r) @ [new_line self [] [] (class_name g)]" by simp
  with index(1) show ?thesis by (auto simp: new_line_def)
next
  case (labels y a3)
  from set_labels_frame[OF labels(4)] labels(5)
  have "ax_lines (ax r') = ax_lines (ax r) @ [new_line self dv y (class_name g)]" by simp
  with labels(1) show ?thesis by (auto simp: new_line_def)
qed

lemma plot_gmpe_ydata:
  assumes "plot_gmpe self i_m t dv g r = (e, r')"
  shows "\<forall>l\<in>set (lines r'). l \<in> set (lines r) \<or> row0 t (line_label l) i_m = Inr (ydata l)"
  using assms
proof (cases rule: plot_gmpe_cases)
  case (labels y a3)
  then show ?thesis by (auto simp: new_line_def)
qed simp_all

lemma plot_gmpe_cong:
  "row0 t' (class_name g) i_m = row0 t (class_name g) i_m \<Longrightarrow>
     plot_gmpe self i_m t' dv g r = plot_gmpe self i_m t dv g r"
  by (simp add: plot_gmpe_def)

lemma plot_gmpe_unknown_distance:
  assumes "DISTANCE_LABEL_MAP (distance_type self) = None"
  shows "fst (plot_gmpe self i_m t dv g r) \<noteq> None"
proof -
  obtain e r' where p: "plot_gmpe self i_m t dv g r = (e, r')"
    by (cases "plot_gmpe self i_m t dv g r")
  from p have "e \<noteq> None"
  proof (cases rule: plot_gmpe_cases)
    case (labels y a3)
    from labels(4) show ?thesis by (auto simp: set_labels_unknown_distance[OF assms])
  qed simp_all
  with p show ?thesis by simp
qed

lemma gmpe_loop_step:
  assumes "plot_gmpe self i_m t dv g r = (o1, r1)"
  shows "gmpe_loop self i_m t dv (g # gs) r =
           (case o1 of None \<Rightarrow> gmpe_loop self i_m t dv gs r1 | Some e \<Rightarrow> (Some e, r1))"
  using assms by (simp split: option.splits)

lemma gmpe_loop_error:
  "gmpe_loop self i_m t dv gs r = (Some e, r') \<Longrightarrow>
     e = KeyError \<or> e = IndexError \<or> e = TypeError \<or> e = ValueError"
proof (induction gs arbitrary: r)
  case Nil
  then show ?case by simp
next
  case (Cons g gs)
  obtain o1 r1 where b: "plot_gmpe self i_m t dv g r = (o1, r1)"
    by (cases "plot_gmpe self i_m t dv g r")
  show ?case
  proof (cases o1)
    case None
    with Cons.prems have "gmpe_loop self i_m t dv gs r1 = (Some e, r')"
      by (simp add: gmpe_loop_step[OF b] del: gmpe_loop.simps)
    then show ?thesis by (rule Cons.IH)
  next
    case (Some e1)
    with Cons.prems have "e1 = e" by (simp add: gmpe_loop_step[OF b] del: gmpe_loop.simps)
    with b Some show ?thesis using plot_gmpe_error by blast
  qed
qed

lemma gmpe_loop_lines:
  "gmpe_loop self i_m t dv gs r = (e, r') \<Longrightarrow>
     \<exists>new. ax_lines (ax r') = ax_lines (ax r) @ new \<and>
       (\<forall>l\<in>set new. drawn_by l = draw_call_of (cls self) (plot_type self) \<and>
              row0 t (line_label l) i_m = Inr (ydata l))"
proof (induction gs arbitrary: r)
  case Nil
  then show ?case by simp
next
  case (Cons g gs)
  obtain o1 r1 where b: "plot_gmpe self i_m t dv g r = (o1, r1)"
    by (cases "plot_gmpe self i_m t dv g r")
  from plot_gmpe_lines[OF b] obtain n1 where
    n1: "ax_lines (ax r1) = ax_lines (ax r) @ n1"
        "\<forall>l\<in>set n1. drawn_by l = draw_call_of (cls self) (plot_type self) \<and>
              row0 t (line_label l) i_m = Inr (ydata l)" by blast
  show ?case
  proof (cases o1)
    case None
    with Cons.prems have "gmpe_loop self i_m t dv gs r1 = (e, r')"
      by (simp add: gmpe_loop_step[OF b] del: gmpe_loop.simps)
    from Cons.IH[OF this] obtain n2 where
      n2: "ax_lines (ax r') = ax_lines (ax r1) @ n2"
          "\<forall>l\<in>set n2. drawn_by l = draw_call_of (cls self) (plot_type self) \<and>
              row0 t (line_label l) i_m = Inr (ydata l)" by blast
    from n1 n2 have "ax_lines (ax r') = ax_lines (ax r) @ (n1 @ n2)" by simp
    moreover from n1 n2
    have "\<forall>l\<in>set (n1 @ n2). drawn_by l = draw_call_of (cls self) (plot_type self) \<and>
              row0 t (line_label l) i_m = Inr (ydata l)"
      by auto
    ultimately show ?thesis by blast
  next
    case (Some e1)
    with Cons.prems have "r' = r1" by (simp add: gmpe_loop_step[OF b] del: gmpe_loop.simps)
    with n1 show ?thesis by blast
  qed
qed

lemma gmpe_loop_cong:
  "\<forall>g\<in>set gs. row0 t' (class_name g) i_m = row0 t (class_name g) i_m \<Longrightarrow>
     gmpe_loop self i_m t' dv gs r = gmpe_loop self i_m t dv gs r"
proof (induction gs arbitrary: r)
  case Nil
  show ?case by simp
next
  case (Cons g gs)
  from Cons.prems have "row0 t' (class_name g) i_m = row0 t (class_name g) i_m" by simp
  then have b: "plot_gmpe self i_m t' dv g r = plot_gmpe self i_m t dv g r"
    by (rule plot_gmpe_cong)
  from Cons.prems have "\<forall>g\<in>set gs. row0 t' (class_name g) i_m = row0 t (class_name g) i_m"
    by simp
  then have "\<And>r. gmpe_loop self i_m t' dv gs r = gmpe_loop self i_m t dv gs r"
    by (rule Cons.IH)
  with b show ?case by (simp split: prod.splits option.splits)
qed

lemma gmpe_loop_ydata:
  "gmpe_loop self i_m t dv gs r = (e, r') \<Longrightarrow>
     \<forall>l\<in>set (lines r'). l \<in> set (lines r) \<or> row0 t (line_label l) i_m = Inr (ydata l)"
proof (induction gs arbitrary: r)
  case Nil
  then show ?case by simp
next
  case (Cons g gs)
  obtain o1 r1 where b: "plot_gmpe self i_m t dv g r = (o1, r1)"
    by (cases "plot_gmpe self i_m t dv g r")
  note s1 = plot_gmpe_ydata[OF b]
  show ?case
  proof (cases o1)
    case None
    with Cons.prems have "gmpe_loop self i_m t dv gs r1 = (e, r')"
      by (simp add: gmpe_loop_step[OF b] del: gmpe_loop.simps)
    from Cons.IH[OF this] s1 show ?thesis by blast
  next
    case (Some e1)
    with Cons.prems have "r' = r1" by (simp add: gmpe_loop_step[OF b] del: gmpe_loop.simps)
    with s1 show ?thesis by simp
  qed
qed

lemma gmpe_loop_fails:
  assumes "g \<in> set gs" and "\<And>r. fst (plot_gmpe self i_m t dv g r) \<noteq> None"
  shows "fst (gmpe_loop self i_m t dv gs r) \<noteq> None"
  using assms(1)
proof (induction gs arbitrary: r)
  case Nil
  then show ?case by simp
next
  case (Cons h gs)
  obtain o1 r1 where b: "plot_gmpe self i_m t dv h r = (o1, r1)"
    by (cases "plot_gmpe self i_m t dv h r")
  show ?case
  proof (cases o1)
    case None
    with b assms(2)[of r] have "h \<noteq> g" by auto
    with Cons.prems have "g \<in> set gs" by simp
    from Cons.IH[OF this, of r1] None show ?thesis by (simp add: gmpe_loop_step[OF b] del: gmpe_loop.simps)
  next
    case (Some e1)
    then show ?thesis by (simp add: gmpe_loop_step[OF b] del: gmpe_loop.simps)
  qed
qed

lemma plot_gmpe_xscale:
  assumes "plot_gmpe self i_m t dv g r = (None, r')"
  shows "ax_xscale (ax r') =
           ax_xscale (set_scales (draw_call_of (cls self) (plot_type self)) (ax r))"
  using assms
proof (cases rule: plot_gmpe_cases)
  case (labels y a3)
  from set_labels_frame[OF labels(4)] labels(5) show ?thesis by simp
qed simp_all

lemma gmpe_loop_last:
  "gmpe_loop self i_m t dv gs r = (None, r') \<Longrightarrow> gs \<noteq> [] \<Longrightarrow>
     dv \<noteq> [] \<and>
     (\<exists>a0. set_labels self i_m (ax_set_xlim (hd dv) (last dv) a0) = (None, ax r') \<and>
            ax_grid a0 \<and>
            ax_xscale a0 =
              ax_xscale (set_scales (draw_call_of (cls self) (plot_type self)) (ax r)))"
proof (induction gs arbitrary: r)
  case Nil
  then show ?case by simp
next
  case (Cons g gs)
  obtain o1 r1 where b: "plot_gmpe self i_m t dv g r = (o1, r1)"
    by (cases "plot_gmpe self i_m t dv g r")
  with Cons.prems have o1: "o1 = None" by (cases o1) (simp_all add: gmpe_loop_step[OF b] del: gmpe_loop.simps)
  with Cons.prems have l: "gmpe_loop self i_m t dv gs r1 = (None, r')"
    by (simp add: gmpe_loop_step[OF b] del: gmpe_loop.simps)
  show ?case
  proof (cases "gs = []")
    case True
    with l have r': "r' = r1" by simp
    from b[unfolded o1] show ?thesis
    proof (cases rule: plot_gmpe_cases)
      case (labels y a3)
      let ?a0 = "(set_scales (draw_call_of (cls self) (plot_type self)) (ax r))
               \<lparr>ax_lines := ax_lines (ax r) @ [new_line self dv y (class_name g)],
                ax_grid := True\<rparr>"
      from labels r' have "set_labels self i_m (ax_set_xlim (hd dv) (last dv) ?a0) = (None, ax r')"
        by simp
      moreover have "ax_grid ?a0"
        "ax_xscale ?a0 = ax_xscale (set_scales (draw_call_of (cls self) (plot_type self)) (ax r))"
        by simp_all
      ultimately show ?thesis using labels(3) by blast
    qed simp_all
  next
    case False
    from plot_gmpe_xscale[OF b[unfolded o1]]
    have "ax_xscale (set_scales (draw_call_of (cls self) (plot_type self)) (ax r1)) =
          ax_xscale (set_scales (draw_call_of (cls self) (plot_type self)) (ax r))"
      by (simp add: set_scales_xscale)
    with Cons.IH[OF l False] show ?thesis by simp
  qed
qed

lemma build_plot_lines:
  "\<exists>new. ax_lines (ax (snd (build_plot self a i_m t))) = ax_lines a @ new \<and>
     (\<forall>l\<in>set new. drawn_by l = draw_call_of (cls self) (plot_type self) \<and>
              row0 t (line_label l) i_m = Inr (ydata l))"
proof (cases "dctx self (distance_type self)")
  case None
  then show ?thesis by (simp add: build_plot_def)
next
  case (Some dv)
  show ?thesis
  proof (cases "plot_type self = ''loglog'' \<or> plot_type self = ''semilogy''")
    case False
    with Some show ?thesis by (simp add: build_plot_def)
  next
    case True
    with Some have bp: "build_plot self a i_m t =
        gmpe_loop self i_m t dv (gsims self) \<lparr>labels = [], lines = [], ax = a\<rparr>"
      by (simp add: build_plot_def)
    obtain e r where l: "gmpe_loop self i_m t dv (gsims self) \<lparr>labels = [], lines = [], ax = a\<rparr> = (e, r)"
      by (cases "gmpe_loop self i_m t dv (gsims self) \<lparr>labels = [], lines = [], ax = a\<rparr>")
    from gmpe_loop_lines[OF l] bp l show ?thesis by simp
  qed
qed

text \<open>
  Claim C3. Every line that a rendering call adds to the axes is drawn by the call that the
  class and the plot type select: for mean plots \<^verbatim>\<open>semilogy\<close> gives \<^verbatim>\<open>ax.semilogy\<close>
  and \<^verbatim>\<open>loglog\<close> gives \<^verbatim>\<open>ax.loglog\<close>; for standard-deviation plots
  \<^verbatim>\<open>loglog\<close> gives \<^verbatim>\<open>ax.semilogx\<close> and \<^verbatim>\<open>semilogy\<close> gives the linear
  \<^verbatim>\<open>ax.plot\<close>.
\<close>

theorem scale_selection:
  "\<exists>new. ax_lines (ax (snd (build_plot self a i_m t))) = ax_lines a @ new \<and>
     (\<forall>l\<in>set new.
        (cls self = DistanceIMTTrellis \<and> plot_type self = ''semilogy'' \<longrightarrow> drawn_by l = Semilogy) \<and>
        (cls self = DistanceIMTTrellis \<and> plot_type self = ''loglog'' \<longrightarrow> drawn_by l = Loglog) \<and>
        (cls self = DistanceSigmaIMTTrellis \<and> plot_type self = ''loglog'' \<longrightarrow> drawn_by l = Semilogx) \<and>
        (cls self = DistanceSigmaIMTTrellis \<and> plot_type self = ''semilogy'' \<longrightarrow> drawn_by l = Plot))"
proof -
  from build_plot_lines[of self a i_m t] obtain new where
    n: "ax_lines (ax (snd (build_plot self a i_m t))) = ax_lines a @ new"
       "\<forall>l\<in>set new. drawn_by l = draw_call_of (cls self) (plot_type self)" by blast
  from n(2) have "\<forall>l\<in>set new.
        (cls self = DistanceIMTTrellis \<and> plot_type self = ''semilogy'' \<longrightarrow> drawn_by l = Semilogy) \<and>
        (cls self = DistanceIMTTrellis \<and> plot_type self = ''loglog'' \<longrightarrow> drawn_by l = Loglog) \<and>
        (cls self = DistanceSigmaIMTTrellis \<and> plot_type self = ''loglog'' \<longrightarrow> drawn_by l = Semilogx) \<and>
        (cls self = DistanceSigmaIMTTrellis \<and> plot_type self = ''semilogy'' \<longrightarrow> drawn_by l = Plot)"
    by (simp add: draw_call_of_def DistanceIMTTrellis_draw_call_def
          DistanceSigmaIMTTrellis_draw_call_def)
  with n(1) show ?thesis by blast
qed


theorem scale_selection_witness:
  "(\<exists>new. ax_lines (ax (snd (build_plot example_trellis fresh_axes ''PGA'' example_gmvs))) = new \<and>
      new \<noteq> [] \<and> (\<forall>l\<in>set new. drawn_by l = Semilogy)) \<and>
   (\<exists>new. ax_lines (ax (snd (build_plot (example_trellis\<lparr>plot_type := ''loglog''\<rparr>)
              fresh_axes ''PGA'' example_gmvs))) = new \<and>
      new \<noteq> [] \<and> (\<forall>l\<in>set new. drawn_by l = Loglog)) \<and>
   (\<exists>new. ax_lines (ax (snd (build_plot
              (example_trellis\<lparr>cls := DistanceSigmaIMTTrellis, plot_type := ''loglog''\<rparr>)
              fresh_axes ''PGA'' example_gmvs))) = new \<and>
      new \<noteq> [] \<and> (\<forall>l\<in>set new. drawn_by l = Semilogx)) \<and>
   (\<exists>new. ax_lines (ax (snd (build_plot (example_trellis\<lparr>cls := DistanceSigmaIMTTrellis\<rparr>)
              fresh_axes ''PGA'' example_gmvs))) = new \<and>
      new \<noteq> [] \<and> (\<forall>l\<in>set new. drawn_by l = Plot))"
  using scale_selection[of example_trellis fresh_axes "''PGA''" example_gmvs]
    scale_selection[of "example_trellis\<lparr>plot_type := ''loglog''\<rparr>" fresh_axes "''PGA''" example_gmvs]
    scale_selection[of "example_trellis\<lparr>cls := DistanceSigmaIMTTrellis, plot_type := ''loglog''\<rparr>"
      fresh_axes "''PGA''" example_gmvs]
    scale_selection[of "example_trellis\<lparr>cls := DistanceSigmaIMTTrellis\<rparr>"
      fresh_axes "''PGA''" example_gmvs]
  by (simp add: render_eval)

lemma build_plot_unfold:
  assumes "dctx self (distance_type self) = Some dv"
    and "plot_type self = ''loglog'' \<or> plot_type self = ''semilogy''"
  shows "build_plot self a i_m t =
           gmpe_loop self i_m t dv (gsims self) \<lparr>labels = [], lines = [], ax = a\<rparr>"
  using assms by (simp add: build_plot_def)

lemma build_plot_no_attribute:
  "dctx self (distance_type self) = None \<Longrightarrow>
     build_plot self a i_m t = (Some AttributeError, \<lparr>labels = [], lines = [], ax = a\<rparr>)"
  by (simp add: build_plot_def)

lemma build_plot_assert:
  assumes "dctx self (distance_type self) = Some dv"
    and "plot_type self \<noteq> ''loglog''" and "plot_type self \<noteq> ''semilogy''"
  shows "build_plot self a i_m t = (Some AssertionError, \<lparr>labels = [], lines = [], ax = a\<rparr>)"
  using assms by (simp add: build_plot_def)

text \<open>
  Claim C4, amended. The attribute lookup \<^verbatim>\<open>getattr(self.dctx, self.distance_type)\<close>
  precedes the assertion. When it succeeds and the plot type is neither \<^verbatim>\<open>loglog\<close> nor
  \<^verbatim>\<open>semilogy\<close>, either renderer fails with AssertionError, with both lists empty and
  the axes untouched; when the plot type is one of the two values, no rendering call fails
  with AssertionError.
\<close>

theorem plot_type_assertion:
  "(dctx self (distance_type self) \<noteq> None \<and> plot_type self \<noteq> ''loglog'' \<and>
      plot_type self \<noteq> ''semilogy'' \<longrightarrow>
      build_plot self a i_m t = (Some AssertionError, \<lparr>labels = [], lines = [], ax = a\<rparr>)) \<and>
   (plot_type self = ''loglog'' \<or> plot_type self = ''semilogy'' \<longrightarrow>
      fst (build_plot self a i_m t) \<noteq> Some AssertionError)"
proof (intro conjI impI)
  assume "dctx self (distance_type self) \<noteq> None \<and> plot_type self \<noteq> ''loglog'' \<and>
      plot_type self \<noteq> ''semilogy''"
  then show "build_plot self a i_m t = (Some AssertionError, \<lparr>labels = [], lines = [], ax = a\<rparr>)"
    using build_plot_assert by blast
next
  assume pt: "plot_type self = ''loglog'' \<or> plot_type self = ''semilogy''"
  show "fst (build_plot self a i_m t) \<noteq> Some AssertionError"
  proof (cases "dctx self (distance_type self)")
    case None
    then show ?thesis by (simp add: build_plot_no_attribute)
  next
    case (Some dv)
    obtain e r where l: "gmpe_loop self i_m t dv (gsims self) \<lparr>labels = [], lines = [], ax = a\<rparr> = (e, r)"
      by (cases "gmpe_loop self i_m t dv (gsims self) \<lparr>labels = [], lines = [], ax = a\<rparr>")
    have "e \<noteq> Some AssertionError"
    proof
      assume "e = Some AssertionError"
      with l gmpe_loop_error[of self i_m t dv "gsims self" _ AssertionError r] show False by simp
    qed
    with l show ?thesis by (simp add: build_plot_unfold[OF Some pt])
  qed
qed

theorem plot_type_assertion_witness:
  "build_plot (example_trellis\<lparr>plot_type := ''linear''\<rparr>) fresh_axes ''PGA'' example_gmvs =
     (Some AssertionError, \<lparr>labels = [], lines = [], ax = fresh_axes\<rparr>) \<and>
   build_plot (example_trellis\<lparr>cls := DistanceSigmaIMTTrellis, plot_type := ''semilogx''\<rparr>)
       fresh_axes ''PGA'' example_gmvs =
     (Some AssertionError, \<lparr>labels = [], lines = [], ax = fresh_axes\<rparr>) \<and>
   fst (build_plot example_trellis fresh_axes ''PGA'' example_gmvs) \<noteq> Some AssertionError \<and>
   fst (build_plot (example_trellis\<lparr>cls := DistanceSigmaIMTTrellis, plot_type := ''loglog''\<rparr>)
       fresh_axes ''PGA'' example_gmvs) \<noteq> Some AssertionError"
  using plot_type_assertion[of "example_trellis\<lparr>plot_type := ''linear''\<rparr>" fresh_axes "''PGA''" example_gmvs]
    plot_type_assertion[of "example_trellis\<lparr>cls := DistanceSigmaIMTTrellis, plot_type := ''semilogx''\<rparr>"
      fresh_axes "''PGA''" example_gmvs]
    plot_type_assertion[of example_trellis fresh_axes "''PGA''" example_gmvs]
    plot_type_assertion[of "example_trellis\<lparr>cls := DistanceSigmaIMTTrellis, plot_type := ''loglog''\<rparr>"
      fresh_axes "''PGA''" example_gmvs]
  by (simp add: example_trellis_def)

text \<open>
  With a plot type outside the two values and a distance type that the distance context
  does not have, the failure is the AttributeError of the lookup, not the assertion.
\<close>

theorem plot_type_assertion_counterexample:
  "plot_type (example_trellis\<lparr>distance_type := ''rvolc'', plot_type := ''linear''\<rparr>) \<noteq> ''loglog'' \<and>
   plot_type (example_trellis\<lparr>distance_type := ''rvolc'', plot_type := ''linear''\<rparr>) \<noteq> ''semilogy'' \<and>
   fst (build_plot (example_trellis\<lparr>distance_type := ''rvolc'', plot_type := ''linear''\<rparr>)
          fresh_axes ''PGA'' example_gmvs) = Some AttributeError"
  by (simp add: build_plot_def example_trellis_def)

lemma plot_gmpe_EmptyList:
  assumes "getitem2 t (class_name g) i_m = Inr EmptyList"
  shows "plot_gmpe self i_m t dv g r = (Some TypeError, r\<lparr>labels := labels r @ [class_name g]\<rparr>)"
  using assms by (simp add: plot_gmpe_row0_error row0_EmptyList)

text \<open>
  Claim C2. The renderers index the table entry with \<^verbatim>\<open>[0, :]\<close> without testing for
  the empty-result marker: a rendering call whose GMPE list has a GMPE with the marker
  \<^verbatim>\<open>[]\<close> as entry always raises, and raises TypeError with no line drawn when that GMPE
  is the first one.
\<close>

theorem empty_entry_raises:
  assumes "g \<in> set (gsims self)"
    and "getitem2 t (class_name g) i_m = Inr EmptyList"
  shows "fst (build_plot self a i_m t) \<noteq> None \<and>
    (\<forall>rest dv. gsims self = g # rest \<and> dctx self (distance_type self) = Some dv \<and>
       (plot_type self = ''loglog'' \<or> plot_type self = ''semilogy'') \<longrightarrow>
       build_plot self a i_m t =
         (Some TypeError, \<lparr>labels = [class_name g], lines = [], ax = a\<rparr>))"
proof (intro conjI allI impI)
  show "fst (build_plot self a i_m t) \<noteq> None"
  proof (cases "dctx self (distance_type self)")
    case None
    then show ?thesis by (simp add: build_plot_no_attribute)
  next
    case (Some dv)
    show ?thesis
    proof (cases "plot_type self = ''loglog'' \<or> plot_type self = ''semilogy''")
      case False
      with Some show ?thesis by (simp add: build_plot_assert)
    next
      case True
      have "\<And>r. fst (plot_gmpe self i_m t dv g r) \<noteq> None"
        by (simp add: plot_gmpe_EmptyList[OF assms(2)])
      from gmpe_loop_fails[OF assms(1) this] show ?thesis
        by (simp add: build_plot_unfold[OF Some True])
    qed
  qed
next
  fix rest dv
  assume h: "gsims self = g # rest \<and> dctx self (distance_type self) = Some dv \<and>
       (plot_type self = ''loglog'' \<or> plot_type self = ''semilogy'')"
  then have "build_plot self a i_m t =
      gmpe_loop self i_m t dv (g # rest) \<lparr>labels = [], lines = [], ax = a\<rparr>"
    using build_plot_unfold[of self dv a i_m t] by simp
  also have "\<dots> = (Some TypeError, \<lparr>labels = [class_name g], lines = [], ax = a\<rparr>)"
    by (simp add: plot_gmpe_EmptyList[OF assms(2)])
  finally show "build_plot self a i_m t =
         (Some TypeError, \<lparr>labels = [class_name g], lines = [], ax = a\<rparr>)" .
qed

theorem empty_entry_raises_witness:
  "build_plot example_trellis fresh_axes ''PGA'' [''GmpeA'' \<mapsto> [''PGA'' \<mapsto> EmptyList]] =
     (Some TypeError, \<lparr>labels = [''GmpeA''], lines = [], ax = fresh_axes\<rparr>) \<and>
   build_plot (example_trellis\<lparr>cls := DistanceSigmaIMTTrellis\<rparr>) fresh_axes ''PGA''
       [''GmpeA'' \<mapsto> [''PGA'' \<mapsto> EmptyList]] =
     (Some TypeError, \<lparr>labels = [''GmpeA''], lines = [], ax = fresh_axes\<rparr>) \<and>
   fst (build_plot sigma_trellis fresh_axes ''PGV''
          (projr (fst (get_ground_motion_values Inr sigma_trellis)))) = Some TypeError \<and>
   labels (snd (build_plot sigma_trellis fresh_axes ''PGV''
          (projr (fst (get_ground_motion_values Inr sigma_trellis))))) = [''GmpeA'', ''GmpeB'']"
  using empty_entry_raises[of "example_gmpe ''GmpeA'' (\<lambda>rct im. Inr [5, 6, 7, 8])" example_trellis
      "[''GmpeA'' \<mapsto> [''PGA'' \<mapsto> EmptyList]]" "''PGA''" fresh_axes]
    empty_entry_raises[of "example_gmpe ''GmpeA'' (\<lambda>rct im. Inr [5, 6, 7, 8])"
      "example_trellis\<lparr>cls := DistanceSigmaIMTTrellis\<rparr>"
      "[''GmpeA'' \<mapsto> [''PGA'' \<mapsto> EmptyList]]" "''PGA''" fresh_axes]
  by (simp add: collect_eval render_eval eval_nat_numeral)

lemma sorted_hd_is_Min:
  fixes xs :: "real list"
  assumes "sorted xs" and "xs \<noteq> []"
  shows "hd xs = Min (set xs)"
proof (cases xs)
  case Nil
  with assms(2) show ?thesis by simp
next
  case (Cons x ys)
  with assms(1) have "\<forall>y\<in>set xs. x \<le> y" by auto
  then have "Min (set xs) = x" using Cons by (intro Min_eqI) auto
  with Cons show ?thesis by simp
qed

lemma sorted_le_last:
  fixes xs :: "real list"
  shows "sorted xs \<Longrightarrow> y \<in> set xs \<Longrightarrow> y \<le> last xs"
proof (induction xs)
  case Nil
  then show ?case by simp
next
  case (Cons x xs)
  show ?case
  proof (cases "xs = []")
    case True
    with Cons.prems show ?thesis by simp
  next
    case False
    then have l: "last xs \<in> set xs" by simp
    from Cons.prems(1) have s: "sorted xs" and le: "\<forall>z\<in>set xs. x \<le> z" by auto
    from Cons.prems(2) have "y = x \<or> y \<in> set xs" by simp
    then have "y \<le> last xs"
    proof
      assume "y = x"
      with le l show ?thesis by simp
    next
      assume "y \<in> set xs"
      with s show ?thesis by (rule Cons.IH)
    qed
    with False show ?thesis by simp
  qed
qed

lemma sorted_last_is_Max:
  fixes xs :: "real list"
  assumes "sorted xs" and "xs \<noteq> []"
  shows "last xs = Max (set xs)"
proof -
  from assms(2) have "last xs \<in> set xs" by simp
  moreover from assms(1) have "\<And>y. y \<in> set xs \<Longrightarrow> y \<le> last xs" by (rule sorted_le_last)
  ultimately have "Max (set xs) = last xs" by (intro Max_eqI) auto
  then show ?thesis by simp
qed

text \<open>
  Claim C7, amended. In a rendering call that returns normally and has at least one GMPE,
  the last call of \<^verbatim>\<open>ax.set_xlim\<close> has the first and the last distance value as
  arguments, and the x axis is logarithmic for the plot type \<^verbatim>\<open>loglog\<close> and keeps the
  scale of the axes that were passed in otherwise. The x-limits of the axis are the first
  and the last distance value when matplotlib takes these two as given: they are clear of
  being singular and, on a logarithmic x axis, both are positive. They are then the minimum and
  the maximum when the distance values are in ascending order.
\<close>

theorem xlim_first_last:
  assumes "build_plot self a i_m t = (None, r)" and "gsims self \<noteq> []"
  shows "\<exists>dv. dctx self (distance_type self) = Some dv \<and> dv \<noteq> [] \<and>
           ax_xscale (ax r) = (if plot_type self = ''loglog'' then LogScale else ax_xscale a) \<and>
           ax_xlim (ax r) =
             (if taken_as_given (ax_xscale (ax r)) (hd dv) (last dv)
              then Limits (hd dv) (last dv) else Requested (hd dv) (last dv)) \<and>
           (sorted dv \<and> taken_as_given (ax_xscale (ax r)) (hd dv) (last dv) \<longrightarrow>
              ax_xlim (ax r) = Limits (Min (set dv)) (Max (set dv)))"
proof (cases "dctx self (distance_type self)")
  case None
  with assms(1) show ?thesis by (simp add: build_plot_no_attribute)
next
  case (Some dv)
  have pt: "plot_type self = ''loglog'' \<or> plot_type self = ''semilogy''"
  proof (rule ccontr)
    assume "\<not> ?thesis"
    with Some assms(1) show False by (simp add: build_plot_assert)
  qed
  from assms(1) have l: "gmpe_loop self i_m t dv (gsims self) \<lparr>labels = [], lines = [], ax = a\<rparr> = (None, r)"
    by (simp add: build_plot_unfold[OF Some pt])
  from gmpe_loop_last[OF l assms(2)] obtain a0 where
    dv: "dv \<noteq> []" and sl: "set_labels self i_m (ax_set_xlim (hd dv) (last dv) a0) = (None, ax r)"
    and sc: "ax_xscale a0 =
       ax_xscale (set_scales (draw_call_of (cls self) (plot_type self)) a)" by auto
  from set_labels_frame[OF sl] sc
  have xs: "ax_xscale (ax r) = (if plot_type self = ''loglog'' then LogScale else ax_xscale a)"
    by (simp add: set_scales_xscale draw_call_of_log_x[OF pt])
  from set_labels_frame[OF sl] have xs0: "ax_xscale (ax r) = ax_xscale a0" by simp
  from set_labels_frame[OF sl]
  have x: "ax_xlim (ax r) =
             (if taken_as_given (ax_xscale (ax r)) (hd dv) (last dv)
              then Limits (hd dv) (last dv) else Requested (hd dv) (last dv))"
    unfolding xs0 by (simp add: ax_set_xlim_def)
  have m: "sorted dv \<and> taken_as_given (ax_xscale (ax r)) (hd dv) (last dv) \<longrightarrow>
              ax_xlim (ax r) = Limits (Min (set dv)) (Max (set dv))"
    using x dv sorted_hd_is_Min[of dv] sorted_last_is_Max[of dv] by simp
  from Some dv xs x m show ?thesis by simp
qed

theorem xlim_first_last_witness:
  "build_plot example_trellis fresh_axes ''PGA'' example_gmvs =
     (None, snd (build_plot example_trellis fresh_axes ''PGA'' example_gmvs)) \<and>
   gsims example_trellis \<noteq> [] \<and>
   (\<exists>dv. dctx example_trellis (distance_type example_trellis) = Some dv \<and> dv = [1, 10, 50, 100] \<and>
      sorted dv \<and> taken_as_given LinearScale 1 100 \<and>
      ax_xscale (ax (snd (build_plot example_trellis fresh_axes ''PGA'' example_gmvs))) = LinearScale \<and>
      ax_xlim (ax (snd (build_plot example_trellis fresh_axes ''PGA'' example_gmvs))) = Limits 1 100 \<and>
      Min (set dv) = 1 \<and> Max (set dv) = 100) \<and>
   ax_xlim (ax (snd (build_plot (example_trellis\<lparr>plot_type := ''loglog''\<rparr>)
      fresh_axes ''PGA'' example_gmvs))) = Limits 1 100 \<and>
   ax_xlim (ax (snd (build_plot
      (example_trellis\<lparr>plot_type := ''loglog'', dctx := [''rjb'' \<mapsto> [0, 10, 50, 100]]\<rparr>)
      fresh_axes ''PGA'' example_gmvs))) = Requested 0 100 \<and>
   ax_xlim (ax (snd (build_plot (example_trellis\<lparr>dctx := [''rjb'' \<mapsto> [5]]\<rparr>)
      fresh_axes ''PGA'' [''GmpeA'' \<mapsto> [''PGA'' \<mapsto> NdArray 1 [[3]]]]))) = Requested 5 5 \<and>
   taken_as_given LogScale 1 100 \<and> \<not> taken_as_given LogScale 0 100 \<and>
   \<not> taken_as_given LinearScale 5 5 \<and> \<not> taken_as_given LinearScale 0 (1 / 10 ^ 300) \<and>
   \<not> taken_as_given LinearScale 1 (1 + 1 / 10 ^ 16) \<and> \<not> taken_as_given OtherScale 1 100"
proof -
  have b: "build_plot example_trellis fresh_axes ''PGA'' example_gmvs =
     (None, snd (build_plot example_trellis fresh_axes ''PGA'' example_gmvs))"
    by (simp add: render_eval)
  have g: "gsims example_trellis \<noteq> []" by (simp add: example_trellis_def)
  have t: "taken_as_given LinearScale 1 100" by (simp add: taken_as_given_def)
  have s: "ax_xscale (ax (snd (build_plot example_trellis fresh_axes ''PGA'' example_gmvs))) = LinearScale"
    by (simp add: render_eval)
  have o: "ax_xlim (ax (snd (build_plot (example_trellis\<lparr>plot_type := ''loglog''\<rparr>)
      fresh_axes ''PGA'' example_gmvs))) = Limits 1 100"
   "ax_xlim (ax (snd (build_plot
      (example_trellis\<lparr>plot_type := ''loglog'', dctx := [''rjb'' \<mapsto> [0, 10, 50, 100]]\<rparr>)
      fresh_axes ''PGA'' example_gmvs))) = Requested 0 100"
   "ax_xlim (ax (snd (build_plot (example_trellis\<lparr>dctx := [''rjb'' \<mapsto> [5]]\<rparr>)
      fresh_axes ''PGA'' [''GmpeA'' \<mapsto> [''PGA'' \<mapsto> NdArray 1 [[3]]]]))) = Requested 5 5"
    by (simp_all add: render_eval)
  have n: "taken_as_given LogScale 1 100" "\<not> taken_as_given LogScale 0 100"
    "\<not> taken_as_given LinearScale 5 5" "\<not> taken_as_given LinearScale 0 (1 / 10 ^ 300)"
    "\<not> taken_as_given LinearScale 1 (1 + 1 / 10 ^ 16)" "\<not> taken_as_given OtherScale 1 100"
    by (simp_all add: taken_as_given_def)
  from xlim_first_last[OF b g] b g t s o n show ?thesis
    by (simp add: example_trellis_def)
qed

text \<open>
  For the distance values 100, 1, 50 on a linear x axis the limits are 100 and 50, which
  matplotlib takes as given, while the minimum and the maximum are 1 and 100.
\<close>

theorem xlim_min_max_counterexample:
  "fst (build_plot (example_trellis\<lparr>dctx := [''rjb'' \<mapsto> [100, 1, 50]]\<rparr>) fresh_axes ''PGA''
          [''GmpeA'' \<mapsto> [''PGA'' \<mapsto> NdArray 3 [[3, 2, 1]]]]) = None \<and>
   ax_xlim (ax (snd (build_plot (example_trellis\<lparr>dctx := [''rjb'' \<mapsto> [100, 1, 50]]\<rparr>)
          fresh_axes ''PGA'' [''GmpeA'' \<mapsto> [''PGA'' \<mapsto> NdArray 3 [[3, 2, 1]]]]))) = Limits 100 50 \<and>
   (Min (set [100, 1, 50 :: real]), Max (set [100, 1, 50 :: real])) = (1, 100)"
  by (simp add: render_eval)

lemma py_in_substring: "py_in p s \<longleftrightarrow> (\<exists>ps ss. s = ps @ p @ ss)"
proof (induction s)
  case Nil
  show ?case by auto
next
  case (Cons c cs)
  have "(\<exists>ps ss. c # cs = ps @ p @ ss) \<longleftrightarrow> prefix p (c # cs) \<or> (\<exists>ps ss. cs = ps @ p @ ss)"
  proof
    assume "\<exists>ps ss. c # cs = ps @ p @ ss"
    then obtain ps ss where e: "c # cs = ps @ p @ ss" by blast
    show "prefix p (c # cs) \<or> (\<exists>ps ss. cs = ps @ p @ ss)"
    proof (cases ps)
      case Nil
      with e show ?thesis by (auto simp: prefix_def)
    next
      case (Cons q qs)
      with e have "cs = qs @ p @ ss" by simp
      then show ?thesis by blast
    qed
  next
    assume "prefix p (c # cs) \<or> (\<exists>ps ss. cs = ps @ p @ ss)"
    then show "\<exists>ps ss. c # cs = ps @ p @ ss"
    proof
      assume "prefix p (c # cs)"
      then obtain ss where "c # cs = p @ ss" by (auto simp: prefix_def)
      then have "c # cs = [] @ p @ ss" by simp
      then show ?thesis by blast
    next
      assume "\<exists>ps ss. cs = ps @ p @ ss"
      then obtain ps ss where "cs = ps @ p @ ss" by blast
      then have "c # cs = (c # ps) @ p @ ss" by simp
      then show ?thesis by blast
    qed
  qed
  with Cons.IH show ?case by simp
qed

lemma set_labels_mean:
  assumes "cls self = DistanceIMTTrellis"
    and "DISTANCE_LABEL_MAP (distance_type self) = Some d"
    and "(if py_in ''SA('' i_m then PLOT_UNITS ''SA'' else PLOT_UNITS i_m) = Some units"
  shows "set_labels self i_m a =
     (None, a\<lparr>ax_xlabel := Some (d @ '' (km)'', 16),
               ax_ylabel := Some (''Median '' @ i_m @ '' ('' @ units @ '')'', 16)\<rparr>)"
  using assms by (simp add: set_labels_def DistanceIMTTrellis_set_labels_def)

lemma set_labels_sigma:
  assumes "cls self = DistanceSigmaIMTTrellis"
    and "DISTANCE_LABEL_MAP (distance_type self) = Some d"
  shows "set_labels self i_m a =
     (None, a\<lparr>ax_xlabel := Some (d @ '' (km)'', 16),
               ax_ylabel := Some (stddevs self @ '' Std. Dev.'', 16)\<rparr>)"
  using assms by (simp add: set_labels_def DistanceSigmaIMTTrellis_set_labels_def)

lemma set_labels_mean_ok:
  assumes "set_labels self i_m a = (None, a')" and "cls self = DistanceIMTTrellis"
  shows "\<exists>units. (if py_in ''SA('' i_m then PLOT_UNITS ''SA'' else PLOT_UNITS i_m) = Some units"
proof (cases "if py_in ''SA('' i_m then PLOT_UNITS ''SA'' else PLOT_UNITS i_m")
  case None
  with assms show ?thesis
    by (simp add: set_labels_def DistanceIMTTrellis_set_labels_def split: option.splits)
next
  case (Some u)
  then show ?thesis by simp
qed

lemma build_plot_ok_labels:
  assumes "build_plot self a i_m t = (None, r)" and "gsims self \<noteq> []"
  shows "\<exists>a0. set_labels self i_m a0 = (None, ax r)"
proof (cases "dctx self (distance_type self)")
  case None
  with assms(1) show ?thesis by (simp add: build_plot_no_attribute)
next
  case (Some dv)
  have pt: "plot_type self = ''loglog'' \<or> plot_type self = ''semilogy''"
  proof (rule ccontr)
    assume "\<not> ?thesis"
    with Some assms(1) show False by (simp add: build_plot_assert)
  qed
  from assms(1) have l: "gmpe_loop self i_m t dv (gsims self) \<lparr>labels = [], lines = [], ax = a\<rparr> = (None, r)"
    by (simp add: build_plot_unfold[OF Some pt])
  from gmpe_loop_last[OF l assms(2)] obtain a0 where
    "set_labels self i_m (ax_set_xlim (hd dv) (last dv) a0) = (None, ax r)" by auto
  then show ?thesis ..
qed

text \<open>
  Claim C8, amended. With \<open>d\<close> the entry of \<^verbatim>\<open>DISTANCE_LABEL_MAP\<close> for the configured distance
  type, the x-axis label is \<open>d\<close> followed by \<^verbatim>\<open> (km)\<close>. For mean plots the y-axis label
  is \<^verbatim>\<open>Median <IM> (<unit>)\<close>, the unit being that of \<^verbatim>\<open>SA\<close> when the intensity
  measure contains \<^verbatim>\<open>SA(\<close> and the entry of \<^verbatim>\<open>PLOT_UNITS\<close> for the intensity measure
  otherwise; for standard-deviation plots it is the statistic name followed by
  \<^verbatim>\<open> Std. Dev.\<close>. These are the labels of the axes after every rendering call that
  returns normally and has at least one GMPE.
\<close>

theorem label_policy:
  assumes "DISTANCE_LABEL_MAP (distance_type self) = Some d"
  shows
   "(cls self = DistanceSigmaIMTTrellis \<longrightarrow>
       set_labels self i_m a =
         (None, a\<lparr>ax_xlabel := Some (d @ '' (km)'', 16),
                   ax_ylabel := Some (stddevs self @ '' Std. Dev.'', 16)\<rparr>)) \<and>
    (cls self = DistanceIMTTrellis \<longrightarrow>
       (\<forall>units. (if \<exists>ps ss. i_m = ps @ ''SA('' @ ss then PLOT_UNITS ''SA'' else PLOT_UNITS i_m)
                  = Some units \<longrightarrow>
          set_labels self i_m a =
            (None, a\<lparr>ax_xlabel := Some (d @ '' (km)'', 16),
                      ax_ylabel := Some (''Median '' @ i_m @ '' ('' @ units @ '')'', 16)\<rparr>))) \<and>
    (\<forall>r. build_plot self a i_m t = (None, r) \<and> gsims self \<noteq> [] \<longrightarrow>
       ax_xlabel (ax r) = Some (d @ '' (km)'', 16) \<and>
       (cls self = DistanceSigmaIMTTrellis \<longrightarrow>
          ax_ylabel (ax r) = Some (stddevs self @ '' Std. Dev.'', 16)) \<and>
       (cls self = DistanceIMTTrellis \<longrightarrow>
          (\<exists>units. (if \<exists>ps ss. i_m = ps @ ''SA('' @ ss then PLOT_UNITS ''SA'' else PLOT_UNITS i_m)
                     = Some units \<and>
             ax_ylabel (ax r) = Some (''Median '' @ i_m @ '' ('' @ units @ '')'', 16))))"
proof (intro conjI allI impI)
  assume "cls self = DistanceSigmaIMTTrellis"
  then show "set_labels self i_m a =
         (None, a\<lparr>ax_xlabel := Some (d @ '' (km)'', 16),
                   ax_ylabel := Some (stddevs self @ '' Std. Dev.'', 16)\<rparr>)"
    using assms by (rule set_labels_sigma)
next
  fix units
  assume "cls self = DistanceIMTTrellis"
    and "(if \<exists>ps ss. i_m = ps @ ''SA('' @ ss then PLOT_UNITS ''SA'' else PLOT_UNITS i_m) = Some units"
  then show "set_labels self i_m a =
            (None, a\<lparr>ax_xlabel := Some (d @ '' (km)'', 16),
                      ax_ylabel := Some (''Median '' @ i_m @ '' ('' @ units @ '')'', 16)\<rparr>)"
    using assms set_labels_mean[of self d i_m units a] by (simp add: py_in_substring)
next
  fix r
  assume h: "build_plot self a i_m t = (None, r) \<and> gsims self \<noteq> []"
  then obtain a0 where sl: "set_labels self i_m a0 = (None, ax r)"
    using build_plot_ok_labels by blast
  show "ax_xlabel (ax r) = Some (d @ '' (km)'', 16)"
  proof (cases "cls self")
    case DistanceIMTTrellis
    from set_labels_mean_ok[OF sl DistanceIMTTrellis] obtain u where
      "(if py_in ''SA('' i_m then PLOT_UNITS ''SA'' else PLOT_UNITS i_m) = Some u" by blast
    from set_labels_mean[OF DistanceIMTTrellis assms this, of a0] sl show ?thesis by simp
  next
    case DistanceSigmaIMTTrellis
    from set_labels_sigma[OF DistanceSigmaIMTTrellis assms, of i_m a0] sl show ?thesis by simp
  qed
  {
    assume c: "cls self = DistanceSigmaIMTTrellis"
    from set_labels_sigma[OF c assms, of i_m a0] sl
    show "ax_ylabel (ax r) = Some (stddevs self @ '' Std. Dev.'', 16)" by simp
  }
  {
    assume c: "cls self = DistanceIMTTrellis"
    from set_labels_mean_ok[OF sl c] obtain u where
      u: "(if py_in ''SA('' i_m then PLOT_UNITS ''SA'' else PLOT_UNITS i_m) = Some u" by blast
    from set_labels_mean[OF c assms u, of a0] sl
    have "ax_ylabel (ax r) = Some (''Median '' @ i_m @ '' ('' @ u @ '')'', 16)" by simp
    with u show "\<exists>units. (if \<exists>ps ss. i_m = ps @ ''SA('' @ ss then PLOT_UNITS ''SA'' else PLOT_UNITS i_m)
                     = Some units \<and>
             ax_ylabel (ax r) = Some (''Median '' @ i_m @ '' ('' @ units @ '')'', 16)"
      by (auto simp: py_in_substring)
  }
qed

theorem label_policy_witness:
  "set_labels example_trellis ''PGA'' fresh_axes =
     (None, fresh_axes\<lparr>ax_xlabel := Some (''Joyner-Boore Dist. (km)'', 16),
                       ax_ylabel := Some (''Median PGA (g)'', 16)\<rparr>) \<and>
   set_labels example_trellis ''SA(0.2)'' fresh_axes =
     (None, fresh_axes\<lparr>ax_xlabel := Some (''Joyner-Boore Dist. (km)'', 16),
                       ax_ylabel := Some (''Median SA(0.2) (g)'', 16)\<rparr>) \<and>
   set_labels (example_trellis\<lparr>cls := DistanceSigmaIMTTrellis\<rparr>) ''PGA'' fresh_axes =
     (None, fresh_axes\<lparr>ax_xlabel := Some (''Joyner-Boore Dist. (km)'', 16),
                       ax_ylabel := Some (''Total Std. Dev.'', 16)\<rparr>) \<and>
   fst (build_plot example_trellis fresh_axes ''PGA'' example_gmvs) = None \<and>
   ax_xlabel (ax (snd (build_plot example_trellis fresh_axes ''PGA'' example_gmvs))) =
     Some (''Joyner-Boore Dist. (km)'', 16) \<and>
   ax_ylabel (ax (snd (build_plot example_trellis fresh_axes ''PGA'' example_gmvs))) =
     Some (''Median PGA (g)'', 16)"
proof -
  have h: "DISTANCE_LABEL_MAP (distance_type example_trellis) = Some ''Joyner-Boore Dist.''"
    by (simp add: DISTANCE_LABEL_MAP_def example_trellis_def)
  have h': "DISTANCE_LABEL_MAP (distance_type (example_trellis\<lparr>cls := DistanceSigmaIMTTrellis\<rparr>))
      = Some ''Joyner-Boore Dist.''"
    by (simp add: DISTANCE_LABEL_MAP_def example_trellis_def)
  have s1: "\<not> (\<exists>ps ss. ''PGA'' = ps @ ''SA('' @ ss)"
    unfolding py_in_substring[symmetric] by simp
  have s2: "\<exists>ps ss. ''SA(0.2)'' = ps @ ''SA('' @ ss"
    unfolding py_in_substring[symmetric] by simp
  have u1: "(if \<exists>ps ss. ''PGA'' = ps @ ''SA('' @ ss then PLOT_UNITS ''SA'' else PLOT_UNITS ''PGA'')
      = Some ''g''"
    by (simp only: s1 if_False) (simp add: PLOT_UNITS_def)
  have u2: "(if \<exists>ps ss. ''SA(0.2)'' = ps @ ''SA('' @ ss then PLOT_UNITS ''SA''
             else PLOT_UNITS ''SA(0.2)'') = Some ''g''"
    by (simp only: s2 if_True) (simp add: PLOT_UNITS_def)
  have c: "cls example_trellis = DistanceIMTTrellis"
    "cls (example_trellis\<lparr>cls := DistanceSigmaIMTTrellis\<rparr>) = DistanceSigmaIMTTrellis"
    "stddevs (example_trellis\<lparr>cls := DistanceSigmaIMTTrellis\<rparr>) = ''Total''"
    "gsims example_trellis \<noteq> []"
    by (simp_all add: example_trellis_def)
  have b: "build_plot example_trellis fresh_axes ''PGA'' example_gmvs =
     (None, snd (build_plot example_trellis fresh_axes ''PGA'' example_gmvs))"
    by (simp add: render_eval)
  note p1 = label_policy[OF h, of "''PGA''" fresh_axes example_gmvs]
  note p2 = label_policy[OF h, of "''SA(0.2)''" fresh_axes example_gmvs]
  note p3 = label_policy[OF h', of "''PGA''" fresh_axes example_gmvs]
  from p1 c(1) u1 have g1: "set_labels example_trellis ''PGA'' fresh_axes =
     (None, fresh_axes\<lparr>ax_xlabel := Some (''Joyner-Boore Dist. (km)'', 16),
                       ax_ylabel := Some (''Median PGA (g)'', 16)\<rparr>)" by simp
  from p2 c(1) u2 have g2: "set_labels example_trellis ''SA(0.2)'' fresh_axes =
     (None, fresh_axes\<lparr>ax_xlabel := Some (''Joyner-Boore Dist. (km)'', 16),
                       ax_ylabel := Some (''Median SA(0.2) (g)'', 16)\<rparr>)" by simp
  from p3 c(2,3) have g3:
    "set_labels (example_trellis\<lparr>cls := DistanceSigmaIMTTrellis\<rparr>) ''PGA'' fresh_axes =
     (None, fresh_axes\<lparr>ax_xlabel := Some (''Joyner-Boore Dist. (km)'', 16),
                       ax_ylabel := Some (''Total Std. Dev.'', 16)\<rparr>)" by simp
  from p1 b c(1,4) u1 have g4:
    "ax_xlabel (ax (snd (build_plot example_trellis fresh_axes ''PGA'' example_gmvs))) =
       Some (''Joyner-Boore Dist. (km)'', 16)"
    "ax_ylabel (ax (snd (build_plot example_trellis fresh_axes ''PGA'' example_gmvs))) =
       Some (''Median PGA (g)'', 16)" by auto
  from b have "fst (build_plot example_trellis fresh_axes ''PGA'' example_gmvs) = None"
    by (metis fst_conv)
  with g1 g2 g3 g4 show ?thesis by simp
qed

text \<open>
  With no GMPE the rendering call returns normally and sets no label.
\<close>

theorem label_policy_counterexample:
  "DISTANCE_LABEL_MAP (distance_type (example_trellis\<lparr>gsims := []\<rparr>)) = Some ''Joyner-Boore Dist.'' \<and>
   build_plot (example_trellis\<lparr>gsims := []\<rparr>) fresh_axes ''PGA'' example_gmvs =
     (None, \<lparr>labels = [], lines = [], ax = fresh_axes\<rparr>) \<and>
   ax_xlabel fresh_axes = None \<and> ax_ylabel fresh_axes = None"
  by (simp add: render_eval)

lemma DISTANCE_LABEL_MAP_None:
  "k \<notin> {''repi'', ''rhypo'', ''rjb'', ''rrup'', ''rx''} \<Longrightarrow> DISTANCE_LABEL_MAP k = None"
  by (simp add: DISTANCE_LABEL_MAP_def)

text \<open>
  Claim C9, amended. For a distance type outside the five keys of \<^verbatim>\<open>DISTANCE_LABEL_MAP\<close>
  the label assignment of either class raises KeyError at the lookup and sets no label. A
  rendering call with at least one GMPE therefore never returns normally; it raises this
  KeyError, after the first line is drawn, when the steps before the label assignment
  succeed: the distance context has the attribute, the plot type passes the assertion, and
  the first GMPE has a row 0 as long as the non-empty distance array.
\<close>

theorem unknown_distance_type:
  assumes "distance_type self \<notin> {''repi'', ''rhypo'', ''rjb'', ''rrup'', ''rx''}"
  shows "set_labels self i_m a = (Some KeyError, a) \<and>
    (gsims self \<noteq> [] \<longrightarrow> fst (build_plot self a i_m t) \<noteq> None) \<and>
    (\<forall>g rest dv y. gsims self = g # rest \<and> dctx self (distance_type self) = Some dv \<and>
        (plot_type self = ''loglog'' \<or> plot_type self = ''semilogy'') \<and>
        row0 t (class_name g) i_m = Inr y \<and> length dv = length y \<and> dv \<noteq> [] \<longrightarrow>
        build_plot self a i_m t =
          (Some KeyError,
           \<lparr>labels = [class_name g], lines = [new_line self dv y (class_name g)],
            ax = ax_set_xlim (hd dv) (last dv)
                   ((set_scales (draw_call_of (cls self) (plot_type self)) a)
                      \<lparr>ax_lines := ax_lines a @ [new_line self dv y (class_name g)],
                       ax_grid := True\<rparr>)\<rparr>))"
proof (intro conjI allI impI)
  note n = DISTANCE_LABEL_MAP_None[OF assms]
  show "set_labels self i_m a = (Some KeyError, a)" by (rule set_labels_unknown_distance[OF n])
  {
    assume ne: "gsims self \<noteq> []"
    then obtain g where g: "g \<in> set (gsims self)" by (cases "gsims self") auto
    show "fst (build_plot self a i_m t) \<noteq> None"
    proof (cases "dctx self (distance_type self)")
      case None
      then show ?thesis by (simp add: build_plot_no_attribute)
    next
      case (Some dv)
      show ?thesis
      proof (cases "plot_type self = ''loglog'' \<or> plot_type self = ''semilogy''")
        case False
        with Some show ?thesis by (simp add: build_plot_assert)
      next
        case True
        have "\<And>r. fst (plot_gmpe self i_m t dv g r) \<noteq> None"
          by (rule plot_gmpe_unknown_distance[OF n])
        from gmpe_loop_fails[OF g this] show ?thesis
          by (simp add: build_plot_unfold[OF Some True])
      qed
    qed
  }
  fix g rest dv y
  assume h: "gsims self = g # rest \<and> dctx self (distance_type self) = Some dv \<and>
        (plot_type self = ''loglog'' \<or> plot_type self = ''semilogy'') \<and>
        row0 t (class_name g) i_m = Inr y \<and> length dv = length y \<and> dv \<noteq> []"
  then have "build_plot self a i_m t =
      gmpe_loop self i_m t dv (g # rest) \<lparr>labels = [], lines = [], ax = a\<rparr>"
    using build_plot_unfold[of self dv a i_m t] by simp
  moreover have "plot_gmpe self i_m t dv g \<lparr>labels = [], lines = [], ax = a\<rparr> =
          (Some KeyError,
           \<lparr>labels = [class_name g], lines = [new_line self dv y (class_name g)],
            ax = ax_set_xlim (hd dv) (last dv)
                   ((set_scales (draw_call_of (cls self) (plot_type self)) a)
                      \<lparr>ax_lines := ax_lines a @ [new_line self dv y (class_name g)],
                       ax_grid := True\<rparr>)\<rparr>)"
    using h by (simp add: plot_gmpe_def ax_draw_def Let_def new_line_def
        set_labels_unknown_distance[OF n])
  ultimately show "build_plot self a i_m t =
          (Some KeyError,
           \<lparr>labels = [class_name g], lines = [new_line self dv y (class_name g)],
            ax = ax_set_xlim (hd dv) (last dv)
                   ((set_scales (draw_call_of (cls self) (plot_type self)) a)
                      \<lparr>ax_lines := ax_lines a @ [new_line self dv y (class_name g)],
                       ax_grid := True\<rparr>)\<rparr>)"
    by (simp del: gmpe_loop.simps add: gmpe_loop_step)
qed

theorem unknown_distance_type_witness:
  "distance_type (example_trellis\<lparr>dctx := [''ry0'' \<mapsto> [1, 10, 50, 100]], distance_type := ''ry0''\<rparr>)
     \<notin> {''repi'', ''rhypo'', ''rjb'', ''rrup'', ''rx''} \<and>
   set_labels (example_trellis\<lparr>dctx := [''ry0'' \<mapsto> [1, 10, 50, 100]], distance_type := ''ry0''\<rparr>)
     ''PGA'' fresh_axes = (Some KeyError, fresh_axes) \<and>
   fst (build_plot (example_trellis\<lparr>dctx := [''ry0'' \<mapsto> [1, 10, 50, 100]], distance_type := ''ry0''\<rparr>)
     fresh_axes ''PGA'' example_gmvs) = Some KeyError \<and>
   length (ax_lines (ax (snd (build_plot
     (example_trellis\<lparr>dctx := [''ry0'' \<mapsto> [1, 10, 50, 100]], distance_type := ''ry0''\<rparr>)
     fresh_axes ''PGA'' example_gmvs)))) = 1 \<and>
   ax_xlabel (ax (snd (build_plot
     (example_trellis\<lparr>dctx := [''ry0'' \<mapsto> [1, 10, 50, 100]], distance_type := ''ry0''\<rparr>)
     fresh_axes ''PGA'' example_gmvs))) = None"
proof -
  let ?st = "example_trellis\<lparr>dctx := [''ry0'' \<mapsto> [1, 10, 50, 100]], distance_type := ''ry0''\<rparr>"
  have d: "distance_type ?st \<notin> {''repi'', ''rhypo'', ''rjb'', ''rrup'', ''rx''}"
    by (simp add: example_trellis_def)
  have g: "gsims ?st = example_gmpe ''GmpeA'' (\<lambda>rct im. Inr [5, 6, 7, 8]) # [] \<and>
      dctx ?st (distance_type ?st) = Some [1, 10, 50, 100] \<and>
      (plot_type ?st = ''loglog'' \<or> plot_type ?st = ''semilogy'') \<and>
      row0 example_gmvs (class_name (example_gmpe ''GmpeA'' (\<lambda>rct im. Inr [5, 6, 7, 8]))) ''PGA''
        = Inr [4, 3, 2, 1] \<and>
      length [1, 10, 50, 100 :: real] = length [4, 3, 2, 1 :: real] \<and> [1, 10, 50, 100 :: real] \<noteq> []"
    by (simp add: example_trellis_def example_gmpe_def example_gmvs_def row0_def getitem2_def)
  from unknown_distance_type[OF d, of "''PGA''" fresh_axes example_gmvs] g
  have "set_labels ?st ''PGA'' fresh_axes = (Some KeyError, fresh_axes)"
    and "build_plot ?st fresh_axes ''PGA'' example_gmvs =
      (Some KeyError,
       \<lparr>labels = [class_name (example_gmpe ''GmpeA'' (\<lambda>rct im. Inr [5, 6, 7, 8]))],
        lines = [new_line ?st [1, 10, 50, 100] [4, 3, 2, 1]
                  (class_name (example_gmpe ''GmpeA'' (\<lambda>rct im. Inr [5, 6, 7, 8])))],
        ax = ax_set_xlim (hd [1, 10, 50, 100]) (last [1, 10, 50, 100])
               ((set_scales (draw_call_of (cls ?st) (plot_type ?st)) fresh_axes)
                  \<lparr>ax_lines := ax_lines fresh_axes @
                     [new_line ?st [1, 10, 50, 100] [4, 3, 2, 1]
                        (class_name (example_gmpe ''GmpeA'' (\<lambda>rct im. Inr [5, 6, 7, 8])))],
                   ax_grid := True\<rparr>)\<rparr>)"
    by blast+
  with d show ?thesis by (simp add: fresh_axes_def)
qed

text \<open>
  With a distance type that the distance context does not have, the failure is the
  AttributeError of \<^verbatim>\<open>getattr\<close>, before any line or label.
\<close>

theorem unknown_distance_type_counterexample:
  "distance_type (example_trellis\<lparr>distance_type := ''rfoo''\<rparr>)
     \<notin> {''repi'', ''rhypo'', ''rjb'', ''rrup'', ''rx''} \<and>
   build_plot (example_trellis\<lparr>distance_type := ''rfoo''\<rparr>) fresh_axes ''PGA'' example_gmvs =
     (Some AttributeError, \<lparr>labels = [], lines = [], ax = fresh_axes\<rparr>)"
  by (simp add: build_plot_def example_trellis_def)

lemma build_plot_cong:
  assumes "\<forall>g\<in>set (gsims self). row0 t' (class_name g) i_m = row0 t (class_name g) i_m"
  shows "build_plot self a i_m t' = build_plot self a i_m t"
proof (cases "dctx self (distance_type self)")
  case None
  then show ?thesis by (simp add: build_plot_no_attribute)
next
  case (Some dv)
  show ?thesis
  proof (cases "plot_type self = ''loglog'' \<or> plot_type self = ''semilogy''")
    case False
    with Some show ?thesis by (simp add: build_plot_assert)
  next
    case True
    from gmpe_loop_cong[OF assms] show ?thesis
      by (simp add: build_plot_unfold[OF Some True])
  qed
qed

text \<open>
  Claim C10. A rendering call reads the table only through \<^verbatim>\<open>gmvs[name][i_m][0, :]\<close>:
  two tables that agree on this expression for every GMPE give the same result, whatever
  their other rows, and the y data of every line drawn is row 0 of the entry of its GMPE.
\<close>

theorem only_row_0_drawn:
  assumes "\<forall>g\<in>set (gsims self). row0 t' (class_name g) i_m = row0 t (class_name g) i_m"
  shows "build_plot self a i_m t' = build_plot self a i_m t \<and>
    (\<exists>new. ax_lines (ax (snd (build_plot self a i_m t))) = ax_lines a @ new \<and>
       (\<forall>l\<in>set new. row0 t (line_label l) i_m = Inr (ydata l)))"
proof
  show "build_plot self a i_m t' = build_plot self a i_m t" using assms by (rule build_plot_cong)
  from build_plot_lines[of self a i_m t]
  show "\<exists>new. ax_lines (ax (snd (build_plot self a i_m t))) = ax_lines a @ new \<and>
       (\<forall>l\<in>set new. row0 t (line_label l) i_m = Inr (ydata l))" by blast
qed

theorem only_row_0_drawn_witness:
  "build_plot example_trellis fresh_axes ''PGA''
      [''GmpeA'' \<mapsto> [''PGA'' \<mapsto> NdArray 4 [[4, 3, 2, 1], [0, 0, 0, 0], [9, 9, 9, 9]]]] =
   build_plot example_trellis fresh_axes ''PGA'' example_gmvs \<and>
   build_plot (example_trellis\<lparr>cls := DistanceSigmaIMTTrellis\<rparr>) fresh_axes ''PGA''
      [''GmpeA'' \<mapsto> [''PGA'' \<mapsto> NdArray 4 [[4, 3, 2, 1]]]] =
   build_plot (example_trellis\<lparr>cls := DistanceSigmaIMTTrellis\<rparr>) fresh_axes ''PGA'' example_gmvs \<and>
   map ydata (ax_lines (ax (snd (build_plot example_trellis fresh_axes ''PGA'' example_gmvs)))) =
     [[4, 3, 2, 1]]"
proof -
  have r1: "\<forall>g\<in>set (gsims example_trellis).
      row0 [''GmpeA'' \<mapsto> [''PGA'' \<mapsto> NdArray 4 [[4, 3, 2, 1], [0, 0, 0, 0], [9, 9, 9, 9]]]]
        (class_name g) ''PGA'' = row0 example_gmvs (class_name g) ''PGA''"
    by (simp add: example_trellis_def example_gmpe_def example_gmvs_def row0_def getitem2_def)
  have r2: "\<forall>g\<in>set (gsims (example_trellis\<lparr>cls := DistanceSigmaIMTTrellis\<rparr>)).
      row0 [''GmpeA'' \<mapsto> [''PGA'' \<mapsto> NdArray 4 [[4, 3, 2, 1]]]]
        (class_name g) ''PGA'' = row0 example_gmvs (class_name g) ''PGA''"
    by (simp add: example_trellis_def example_gmpe_def example_gmvs_def row0_def getitem2_def)
  have y: "map ydata (ax_lines (ax (snd (build_plot example_trellis fresh_axes ''PGA'' example_gmvs))))
      = [[4, 3, 2, 1]]"
    by (simp add: render_eval)
  from only_row_0_drawn[OF r1, of fresh_axes] only_row_0_drawn[OF r2, of fresh_axes] y
  show ?thesis by simp
qed

section \<open>Properties of the value collector\<close>

lemma try_body_run:
  assumes "t (class_name g) = Some d" and "d i_m = Some (NdArray (nsites self) rows)"
    and "iloc < length rows"
  shows "try_body fs self g i_m iloc rct \<lparr>gmvs = t, rows_entered = l\<rparr> =
     (case row_outcome fs self g i_m rct of
        Inl e \<Rightarrow> (Some e, \<lparr>gmvs = t, rows_entered = l @ [(class_name g, i_m, iloc)]\<rparr>)
      | Inr row \<Rightarrow>
          (None, \<lparr>gmvs = t(class_name g \<mapsto> d(i_m \<mapsto> NdArray (nsites self) (rows[iloc := row]))),
                  rows_entered = l @ [(class_name g, i_m, iloc)]\<rparr>))"
proof (cases "sigma_row fs self g i_m rct")
  case (Inl e)
  then show ?thesis by (simp add: try_body_def row_outcome_def)
next
  case (Inr s0)
  show ?thesis
  proof (cases "broadcast_to (nsites self) s0")
    case (Inl e)
    with Inr assms show ?thesis
      by (simp add: try_body_def row_outcome_def getitem2_def)
  next
    case r: (Inr row)
    with Inr assms show ?thesis
      by (simp add: try_body_def row_outcome_def getitem2_def setitem2_def)
  qed
qed

lemma fill_rows_count: "iloc \<le> snd (snd (fill_rows n iloc outs rows))"
proof (induction outs arbitrary: iloc rows)
  case Nil
  show ?case by simp
next
  case (Cons o1 outs)
  show ?case
  proof (cases o1)
    case (Inl e)
    then show ?thesis by simp
  next
    case (Inr row)
    from Cons.IH[of "Suc iloc" "rows[iloc := row]"] Inr show ?thesis by simp
  qed
qed

lemma fill_rows_not_KeyError: "fst (fill_rows n iloc outs rows) \<noteq> Some KeyError"
proof (induction outs arbitrary: iloc rows)
  case Nil
  show ?case by simp
next
  case (Cons o1 outs)
  show ?case
  proof (cases o1)
    case (Inl e)
    then show ?thesis by simp
  next
    case (Inr row)
    from Cons.IH[of "Suc iloc" "rows[iloc := row]"] Inr show ?thesis by simp
  qed
qed

lemma rctx_loop_run:
  assumes "t (class_name g) = Some d" and "d i_m = Some (NdArray (nsites self) rows)"
    and "iloc + length rcts \<le> length rows"
    and "fill_rows (nsites self) iloc (map (row_outcome fs self g i_m) rcts) rows = (e, a, k)"
  shows "rctx_loop fs self g i_m iloc rcts \<lparr>gmvs = t, rows_entered = l\<rparr> =
          (e, \<lparr>gmvs = t(class_name g \<mapsto> d(i_m \<mapsto> a)),
               rows_entered = l @ map (\<lambda>j. (class_name g, i_m, j)) [iloc..<k]\<rparr>)"
  using assms
proof (induction rcts arbitrary: iloc rows t d l)
  case Nil
  from Nil(2) have "d(i_m \<mapsto> NdArray (nsites self) rows) = d" by (rule map_upd_triv)
  moreover from Nil(1) have "t(class_name g \<mapsto> d) = t" by (rule map_upd_triv)
  moreover from Nil(4) have "e = None" "a = NdArray (nsites self) rows" "k = iloc" by simp_all
  ultimately have "rctx_loop fs self g i_m iloc [] \<lparr>gmvs = t, rows_entered = l\<rparr> =
          (e, \<lparr>gmvs = t(class_name g \<mapsto> d(i_m \<mapsto> a)),
               rows_entered = l @ map (\<lambda>j. (class_name g, i_m, j)) [iloc..<k]\<rparr>)"
    by simp
  then show ?case .
next
  case (Cons rct rcts)
  from Cons.prems(3) have il: "iloc < length rows" by simp
  note tb = try_body_run[where t = t and g = g and d = d and i_m = i_m and l = l
      and fs = fs and rct = rct, OF Cons.prems(1,2) il]
  have "rctx_loop fs self g i_m iloc (rct # rcts) \<lparr>gmvs = t, rows_entered = l\<rparr> =
          (e, \<lparr>gmvs = t(class_name g \<mapsto> d(i_m \<mapsto> a)),
               rows_entered = l @ map (\<lambda>j. (class_name g, i_m, j)) [iloc..<k]\<rparr>)"
  proof (cases "row_outcome fs self g i_m rct")
    case (Inl e1)
    show ?thesis
    proof (cases "e1 = KeyError")
      case True
      with Inl Cons.prems(4) have "e = None" "a = EmptyList" "k = Suc iloc" by simp_all
      with True Inl tb Cons.prems(1) show ?thesis by (simp add: setitem2_def)
    next
      case False
      with Inl Cons.prems(4) have "e = Some e1" "a = NdArray (nsites self) rows" "k = Suc iloc"
        by simp_all
      moreover from Cons.prems(2) have "d(i_m \<mapsto> NdArray (nsites self) rows) = d"
        by (rule map_upd_triv)
      moreover from Cons.prems(1) have "t(class_name g \<mapsto> d) = t"
        by (rule map_upd_triv)
      ultimately show ?thesis using False Inl tb by simp
    qed
  next
    case (Inr row)
    let ?d' = "d(i_m \<mapsto> NdArray (nsites self) (rows[iloc := row]))"
    let ?t' = "t(class_name g \<mapsto> ?d')"
    have p1: "?t' (class_name g) = Some ?d'" by simp
    have p2: "?d' i_m = Some (NdArray (nsites self) (rows[iloc := row]))" by simp
    from Cons.prems(3) have p3: "Suc iloc + length rcts \<le> length (rows[iloc := row])" by simp
    from Cons.prems(4) Inr
    have p4: "fill_rows (nsites self) (Suc iloc) (map (row_outcome fs self g i_m) rcts)
        (rows[iloc := row]) = (e, a, k)" by simp
    have ih: "rctx_loop fs self g i_m (Suc iloc) rcts
          \<lparr>gmvs = ?t', rows_entered = l @ [(class_name g, i_m, iloc)]\<rparr> =
        (e, \<lparr>gmvs = ?t'(class_name g \<mapsto> ?d'(i_m \<mapsto> a)),
             rows_entered = (l @ [(class_name g, i_m, iloc)]) @
               map (\<lambda>j. (class_name g, i_m, j)) [Suc iloc..<k]\<rparr>)"
      by (rule Cons.IH) (rule p1, rule p2, rule p3, rule p4)
    from fill_rows_count[of "Suc iloc" "nsites self" "map (row_outcome fs self g i_m) rcts"
        "rows[iloc := row]"] p4 have k: "Suc iloc \<le> k" by simp
    then have u: "[iloc..<k] = iloc # [Suc iloc..<k]" by (simp add: upt_conv_Cons)
    from Inr tb have "rctx_loop fs self g i_m iloc (rct # rcts) \<lparr>gmvs = t, rows_entered = l\<rparr> =
        rctx_loop fs self g i_m (Suc iloc) rcts
          \<lparr>gmvs = ?t', rows_entered = l @ [(class_name g, i_m, iloc)]\<rparr>" by simp
    with ih u show ?thesis by simp
  qed
  then show ?case .
qed

lemma first_error_append:
  "first_error (xs @ ys) = (case first_error xs of None \<Rightarrow> first_error ys | Some e \<Rightarrow> Some e)"
  by (induction xs rule: first_error.induct) simp_all

lemma first_error_source: "first_error xs = Some e \<Longrightarrow> Some e \<in> set xs"
  by (induction xs rule: first_error.induct) simp_all

lemma first_error_None: "first_error xs = None \<Longrightarrow> x \<in> set xs \<Longrightarrow> x = None"
  by (induction xs rule: first_error.induct) auto

lemma pair_run:
  assumes "t (class_name g) = Some d" and "pair_result fs self g i_m = (e, a, k)"
  shows "setitem2 t (class_name g) i_m (np_zeros (length (rctx self)) (nsites self)) =
           Inr (t(class_name g \<mapsto> d(i_m \<mapsto> np_zeros (length (rctx self)) (nsites self))))"
    and "rctx_loop fs self g i_m 0 (rctx self)
           \<lparr>gmvs = t(class_name g \<mapsto> d(i_m \<mapsto> np_zeros (length (rctx self)) (nsites self))),
            rows_entered = l\<rparr> =
         (e, \<lparr>gmvs = t(class_name g \<mapsto> d(i_m \<mapsto> a)),
              rows_entered = l @ map (\<lambda>j. (class_name g, i_m, j)) [0..<k]\<rparr>)"
proof -
  let ?z = "replicate (length (rctx self)) (replicate (nsites self) (0::real))"
  let ?d1 = "d(i_m \<mapsto> np_zeros (length (rctx self)) (nsites self))"
  let ?t1 = "t(class_name g \<mapsto> ?d1)"
  show "setitem2 t (class_name g) i_m (np_zeros (length (rctx self)) (nsites self)) = Inr ?t1"
    using assms(1) by (simp add: setitem2_def)
  have p1: "?t1 (class_name g) = Some ?d1" by simp
  have p2: "?d1 i_m = Some (NdArray (nsites self) ?z)" by (simp add: np_zeros_def)
  have p3: "0 + length (rctx self) \<le> length ?z" by simp
  from assms(2)
  have p4: "fill_rows (nsites self) 0 (map (row_outcome fs self g i_m) (rctx self)) ?z = (e, a, k)"
    by (simp add: pair_result_def)
  have "rctx_loop fs self g i_m 0 (rctx self) \<lparr>gmvs = ?t1, rows_entered = l\<rparr> =
      (e, \<lparr>gmvs = ?t1(class_name g \<mapsto> ?d1(i_m \<mapsto> a)),
           rows_entered = l @ map (\<lambda>j. (class_name g, i_m, j)) [0..<k]\<rparr>)"
    by (rule rctx_loop_run) (rule p1, rule p2, rule p3, rule p4)
  then show "rctx_loop fs self g i_m 0 (rctx self) \<lparr>gmvs = ?t1, rows_entered = l\<rparr> =
         (e, \<lparr>gmvs = t(class_name g \<mapsto> d(i_m \<mapsto> a)),
              rows_entered = l @ map (\<lambda>j. (class_name g, i_m, j)) [0..<k]\<rparr>)"
    by simp
qed

lemma imts_loop_step:
  assumes "t (class_name g) = Some d" and "pair_result fs self g i_m = (e, a, k)"
  shows "imts_loop fs self g (i_m # rest) \<lparr>gmvs = t, rows_entered = l\<rparr> =
     (case e of
        None \<Rightarrow> imts_loop fs self g rest
                  \<lparr>gmvs = t(class_name g \<mapsto> d(i_m \<mapsto> a)),
                   rows_entered = l @ map (\<lambda>j. (class_name g, i_m, j)) [0..<k]\<rparr>
      | Some x \<Rightarrow> (Some x, \<lparr>gmvs = t(class_name g \<mapsto> d(i_m \<mapsto> a)),
                   rows_entered = l @ map (\<lambda>j. (class_name g, i_m, j)) [0..<k]\<rparr>))"
  using pair_run(1)[where t = t and d = d, OF assms]
    pair_run(2)[where t = t and d = d and l = l, OF assms]
  by (simp split: option.splits)

lemma pair_result_parts:
  "pair_result fs self g i_m = (pair_error fs self g i_m, pair_entry fs self g i_m, pair_rows fs self g i_m)"
  by (simp add: pair_error_def pair_entry_def pair_rows_def)

lemma imts_loop_run:
  assumes "t (class_name g) = Some d"
  shows "\<exists>d' l'.
     imts_loop fs self g ims \<lparr>gmvs = t, rows_entered = l\<rparr> =
       (first_error (map (pair_error fs self g) ims),
        \<lparr>gmvs = t(class_name g \<mapsto> d'), rows_entered = l @ l'\<rparr>) \<and>
     (first_error (map (pair_error fs self g) ims) = None \<longrightarrow>
        (\<forall>im. d' im = (if im \<in> set ims then Some (pair_entry fs self g im) else d im))) \<and>
     (\<forall>x\<in>set l'. \<exists>im j. x = (class_name g, im, j) \<and> im \<in> set ims \<and> j < pair_rows fs self g im)"
  using assms
proof (induction ims arbitrary: t d l)
  case Nil
  from Nil have "t(class_name g \<mapsto> d) = t" by (rule map_upd_triv)
  then have "imts_loop fs self g [] \<lparr>gmvs = t, rows_entered = l\<rparr> =
       (first_error (map (pair_error fs self g) []),
        \<lparr>gmvs = t(class_name g \<mapsto> d), rows_entered = l @ []\<rparr>)" by simp
  then have "\<exists>d' l'.
     imts_loop fs self g [] \<lparr>gmvs = t, rows_entered = l\<rparr> =
       (first_error (map (pair_error fs self g) []),
        \<lparr>gmvs = t(class_name g \<mapsto> d'), rows_entered = l @ l'\<rparr>) \<and>
     (first_error (map (pair_error fs self g) []) = None \<longrightarrow>
        (\<forall>im. d' im = (if im \<in> set [] then Some (pair_entry fs self g im) else d im))) \<and>
     (\<forall>x\<in>set l'. \<exists>im j. x = (class_name g, im, j) \<and> im \<in> set [] \<and> j < pair_rows fs self g im)"
    by (intro exI[of _ d] exI[of _ "[]"]) simp
  then show ?case .
next
  case (Cons i_m rest)
  let ?e = "pair_error fs self g i_m"
  let ?a = "pair_entry fs self g i_m"
  let ?k = "pair_rows fs self g i_m"
  let ?d1 = "d(i_m \<mapsto> ?a)"
  let ?t1 = "t(class_name g \<mapsto> ?d1)"
  let ?l1 = "map (\<lambda>j. (class_name g, i_m, j)) [0..<?k]"
  note step = imts_loop_step[where t = t and d = d and l = l and rest = rest,
      OF Cons.prems pair_result_parts]
  have l1: "\<forall>x\<in>set ?l1. \<exists>im j. x = (class_name g, im, j) \<and> im \<in> set (i_m # rest) \<and>
      j < pair_rows fs self g im" by auto
  have "\<exists>d' l'.
     imts_loop fs self g (i_m # rest) \<lparr>gmvs = t, rows_entered = l\<rparr> =
       (first_error (map (pair_error fs self g) (i_m # rest)),
        \<lparr>gmvs = t(class_name g \<mapsto> d'), rows_entered = l @ l'\<rparr>) \<and>
     (first_error (map (pair_error fs self g) (i_m # rest)) = None \<longrightarrow>
        (\<forall>im. d' im = (if im \<in> set (i_m # rest) then Some (pair_entry fs self g im) else d im))) \<and>
     (\<forall>x\<in>set l'. \<exists>im j. x = (class_name g, im, j) \<and> im \<in> set (i_m # rest) \<and> j < pair_rows fs self g im)"
  proof (cases ?e)
    case (Some x)
    with step have "imts_loop fs self g (i_m # rest) \<lparr>gmvs = t, rows_entered = l\<rparr> =
       (first_error (map (pair_error fs self g) (i_m # rest)),
        \<lparr>gmvs = t(class_name g \<mapsto> ?d1), rows_entered = l @ ?l1\<rparr>)" by simp
    moreover from Some have "first_error (map (pair_error fs self g) (i_m # rest)) = Some x"
      by simp
    ultimately show ?thesis using l1
      by (intro exI[of _ ?d1] exI[of _ ?l1] conjI) (simp_all del: imts_loop.simps)
  next
    case None
    have t1: "?t1 (class_name g) = Some ?d1" by simp
    let ?P = "\<lambda>d' l'.
       imts_loop fs self g rest \<lparr>gmvs = ?t1, rows_entered = l @ ?l1\<rparr> =
         (first_error (map (pair_error fs self g) rest),
          \<lparr>gmvs = ?t1(class_name g \<mapsto> d'), rows_entered = (l @ ?l1) @ l'\<rparr>) \<and>
       (first_error (map (pair_error fs self g) rest) = None \<longrightarrow>
          (\<forall>im. d' im = (if im \<in> set rest then Some (pair_entry fs self g im) else ?d1 im))) \<and>
       (\<forall>x\<in>set l'. \<exists>im j. x = (class_name g, im, j) \<and> im \<in> set rest \<and>
           j < pair_rows fs self g im)"
    have "\<exists>d' l'. ?P d' l'"
      by (rule Cons.IH) (rule t1)
    then obtain d' where "\<exists>l'. ?P d' l'" ..
    then obtain l' where all: "?P d' l'" ..
    note r = all[THEN conjunct1]
    note dd = all[THEN conjunct2, THEN conjunct1]
    note ll = all[THEN conjunct2, THEN conjunct2]
    from None step r have "imts_loop fs self g (i_m # rest) \<lparr>gmvs = t, rows_entered = l\<rparr> =
       (first_error (map (pair_error fs self g) (i_m # rest)),
        \<lparr>gmvs = t(class_name g \<mapsto> d'), rows_entered = l @ (?l1 @ l')\<rparr>)" by simp
    moreover from None dd
    have "first_error (map (pair_error fs self g) (i_m # rest)) = None \<longrightarrow>
        (\<forall>im. d' im = (if im \<in> set (i_m # rest) then Some (pair_entry fs self g im) else d im))"
      by simp
    moreover from l1 ll
    have "\<forall>x\<in>set (?l1 @ l'). \<exists>im j. x = (class_name g, im, j) \<and> im \<in> set (i_m # rest) \<and>
        j < pair_rows fs self g im" by auto
    ultimately show ?thesis
      by (intro exI[of _ d'] exI[of _ "?l1 @ l'"] conjI) (simp_all del: imts_loop.simps)
  qed
  then show ?case .
qed

lemma gsims_loop_step:
  assumes "imts_loop fs self g (imts self)
             \<lparr>gmvs = t(class_name g \<mapsto> Map.empty), rows_entered = l\<rparr> = (e, c')"
  shows "gsims_loop fs self (g # rest) \<lparr>gmvs = t, rows_entered = l\<rparr> =
           (case e of None \<Rightarrow> gsims_loop fs self rest c' | Some x \<Rightarrow> (Some x, c'))"
  using assms by (simp split: option.splits)

lemma gsims_loop_run:
  "\<exists>t' l'.
     gsims_loop fs self gs \<lparr>gmvs = t, rows_entered = l\<rparr> =
       (first_error (concat (map (\<lambda>g. map (pair_error fs self g) (imts self)) gs)),
        \<lparr>gmvs = t', rows_entered = l @ l'\<rparr>) \<and>
     (\<forall>n. n \<notin> class_name ` set gs \<longrightarrow> t' n = t n) \<and>
     (first_error (concat (map (\<lambda>g. map (pair_error fs self g) (imts self)) gs)) = None \<longrightarrow>
        (\<forall>g\<in>set gs. (\<forall>g'\<in>set gs. class_name g' = class_name g \<longrightarrow> g' = g) \<longrightarrow>
           (\<exists>d'. t' (class_name g) = Some d' \<and>
              (\<forall>im. d' im = (if im \<in> set (imts self) then Some (pair_entry fs self g im)
                              else None))))) \<and>
     (\<forall>x\<in>set l'. \<exists>g im j. x = (class_name g, im, j) \<and> g \<in> set gs \<and> im \<in> set (imts self) \<and>
         j < pair_rows fs self g im)"
proof (induction gs arbitrary: t l)
  case Nil
  have "\<exists>t' l'.
     gsims_loop fs self [] \<lparr>gmvs = t, rows_entered = l\<rparr> =
       (first_error (concat (map (\<lambda>g. map (pair_error fs self g) (imts self)) [])),
        \<lparr>gmvs = t', rows_entered = l @ l'\<rparr>) \<and>
     (\<forall>n. n \<notin> class_name ` set [] \<longrightarrow> t' n = t n) \<and>
     (first_error (concat (map (\<lambda>g. map (pair_error fs self g) (imts self)) [])) = None \<longrightarrow>
        (\<forall>g\<in>set []. (\<forall>g'\<in>set []. class_name g' = class_name g \<longrightarrow> g' = g) \<longrightarrow>
           (\<exists>d'. t' (class_name g) = Some d' \<and>
              (\<forall>im. d' im = (if im \<in> set (imts self) then Some (pair_entry fs self g im)
                              else None))))) \<and>
     (\<forall>x\<in>set l'. \<exists>g im j. x = (class_name g, im, j) \<and> g \<in> set [] \<and> im \<in> set (imts self) \<and>
         j < pair_rows fs self g im)"
    by (intro exI[of _ t] exI[of _ "[]"]) simp
  then show ?case .
next
  case (Cons g0 gs)
  let ?Eh = "first_error (map (pair_error fs self g0) (imts self))"
  let ?Et = "first_error (concat (map (\<lambda>g. map (pair_error fs self g) (imts self)) gs))"
  let ?Ea = "first_error (concat (map (\<lambda>g. map (pair_error fs self g) (imts self)) (g0 # gs)))"
  let ?tz = "t(class_name g0 \<mapsto> Map.empty)"
  have E: "?Ea = (case ?Eh of None \<Rightarrow> ?Et | Some e \<Rightarrow> Some e)"
    by (simp add: first_error_append)
  have t0: "?tz (class_name g0) = Some Map.empty" by simp
  let ?Q = "\<lambda>d1 l1.
     imts_loop fs self g0 (imts self) \<lparr>gmvs = ?tz, rows_entered = l\<rparr> =
       (?Eh, \<lparr>gmvs = ?tz(class_name g0 \<mapsto> d1), rows_entered = l @ l1\<rparr>) \<and>
     (?Eh = None \<longrightarrow>
        (\<forall>im. d1 im = (if im \<in> set (imts self) then Some (pair_entry fs self g0 im)
                        else Map.empty im))) \<and>
     (\<forall>x\<in>set l1. \<exists>im j. x = (class_name g0, im, j) \<and> im \<in> set (imts self) \<and>
         j < pair_rows fs self g0 im)"
  have "\<exists>d1 l1. ?Q d1 l1" by (rule imts_loop_run) (rule t0)
  then obtain d1 where "\<exists>l1. ?Q d1 l1" ..
  then obtain l1 where q: "?Q d1 l1" ..
  note i1 = q[THEN conjunct1]
  note i2 = q[THEN conjunct2, THEN conjunct1]
  note i3 = q[THEN conjunct2, THEN conjunct2]
  let ?tn = "t(class_name g0 \<mapsto> d1)"
  have t01: "?tz(class_name g0 \<mapsto> d1) = ?tn" by simp
  note step = gsims_loop_step[OF i1[unfolded t01], of gs]
  have l1: "\<forall>x\<in>set l1. \<exists>g im j. x = (class_name g, im, j) \<and> g \<in> set (g0 # gs) \<and>
      im \<in> set (imts self) \<and> j < pair_rows fs self g im"
  proof
    fix x assume "x \<in> set l1"
    with i3 obtain im j where "x = (class_name g0, im, j)" "im \<in> set (imts self)"
      "j < pair_rows fs self g0 im" by blast
    then show "\<exists>g im j. x = (class_name g, im, j) \<and> g \<in> set (g0 # gs) \<and>
      im \<in> set (imts self) \<and> j < pair_rows fs self g im" by auto
  qed
  have "\<exists>t' l'.
     gsims_loop fs self (g0 # gs) \<lparr>gmvs = t, rows_entered = l\<rparr> =
       (?Ea, \<lparr>gmvs = t', rows_entered = l @ l'\<rparr>) \<and>
     (\<forall>n. n \<notin> class_name ` set (g0 # gs) \<longrightarrow> t' n = t n) \<and>
     (?Ea = None \<longrightarrow>
        (\<forall>g\<in>set (g0 # gs). (\<forall>g'\<in>set (g0 # gs). class_name g' = class_name g \<longrightarrow> g' = g) \<longrightarrow>
           (\<exists>d'. t' (class_name g) = Some d' \<and>
              (\<forall>im. d' im = (if im \<in> set (imts self) then Some (pair_entry fs self g im)
                              else None))))) \<and>
     (\<forall>x\<in>set l'. \<exists>g im j. x = (class_name g, im, j) \<and> g \<in> set (g0 # gs) \<and>
         im \<in> set (imts self) \<and> j < pair_rows fs self g im)"
  proof (cases ?Eh)
    case (Some x)
    with step have r: "gsims_loop fs self (g0 # gs) \<lparr>gmvs = t, rows_entered = l\<rparr> =
        (?Ea, \<lparr>gmvs = ?tn, rows_entered = l @ l1\<rparr>)"
      by (simp add: first_error_append del: gsims_loop.simps)
    from Some have ne: "?Ea = Some x" by (simp add: first_error_append)
    have fr: "\<forall>n. n \<notin> class_name ` set (g0 # gs) \<longrightarrow> ?tn n = t n" by simp
    from r fr ne l1 show ?thesis
      by (intro exI[of _ ?tn] exI[of _ l1] conjI) (simp_all del: gsims_loop.simps)
  next
    case None
    let ?R = "\<lambda>t' l'.
       gsims_loop fs self gs \<lparr>gmvs = ?tn, rows_entered = l @ l1\<rparr> =
         (?Et, \<lparr>gmvs = t', rows_entered = (l @ l1) @ l'\<rparr>) \<and>
       (\<forall>n. n \<notin> class_name ` set gs \<longrightarrow> t' n = ?tn n) \<and>
       (?Et = None \<longrightarrow>
          (\<forall>g\<in>set gs. (\<forall>g'\<in>set gs. class_name g' = class_name g \<longrightarrow> g' = g) \<longrightarrow>
             (\<exists>d'. t' (class_name g) = Some d' \<and>
                (\<forall>im. d' im = (if im \<in> set (imts self) then Some (pair_entry fs self g im)
                                else None))))) \<and>
       (\<forall>x\<in>set l'. \<exists>g im j. x = (class_name g, im, j) \<and> g \<in> set gs \<and> im \<in> set (imts self) \<and>
           j < pair_rows fs self g im)"
    have "\<exists>t' l'. ?R t' l'" by (rule Cons.IH)
    then obtain t' where "\<exists>l'. ?R t' l'" ..
    then obtain l' where rr: "?R t' l'" ..
    note r1 = rr[THEN conjunct1]
    note r2 = rr[THEN conjunct2, THEN conjunct1]
    note r3 = rr[THEN conjunct2, THEN conjunct2, THEN conjunct1]
    note r4 = rr[THEN conjunct2, THEN conjunct2, THEN conjunct2]
    from None have EE: "?Ea = ?Et" by (simp add: first_error_append)
    from None step r1 have r: "gsims_loop fs self (g0 # gs) \<lparr>gmvs = t, rows_entered = l\<rparr> =
        (?Ea, \<lparr>gmvs = t', rows_entered = l @ (l1 @ l')\<rparr>)"
      by (simp add: first_error_append del: gsims_loop.simps)
    have fr: "\<forall>n. n \<notin> class_name ` set (g0 # gs) \<longrightarrow> t' n = t n"
    proof (intro allI impI)
      fix n assume n: "n \<notin> class_name ` set (g0 # gs)"
      then have "n \<notin> class_name ` set gs" and "n \<noteq> class_name g0" by auto
      with r2 show "t' n = t n" by simp
    qed
    have ok: "?Ea = None \<longrightarrow>
        (\<forall>g\<in>set (g0 # gs). (\<forall>g'\<in>set (g0 # gs). class_name g' = class_name g \<longrightarrow> g' = g) \<longrightarrow>
           (\<exists>d'. t' (class_name g) = Some d' \<and>
              (\<forall>im. d' im = (if im \<in> set (imts self) then Some (pair_entry fs self g im)
                              else None))))"
    proof (intro impI ballI)
      fix g
      assume en: "?Ea = None" and g: "g \<in> set (g0 # gs)"
        and u: "\<forall>g'\<in>set (g0 # gs). class_name g' = class_name g \<longrightarrow> g' = g"
      from en EE have es: "?Et = None" by simp
      show "\<exists>d'. t' (class_name g) = Some d' \<and>
              (\<forall>im. d' im = (if im \<in> set (imts self) then Some (pair_entry fs self g im)
                              else None))"
      proof (cases "g \<in> set gs")
        case True
        from u have "\<forall>g'\<in>set gs. class_name g' = class_name g \<longrightarrow> g' = g" by simp
        with r3 es True show ?thesis by blast
      next
        case False
        with g have g0: "g = g0" by simp
        have "class_name g0 \<notin> class_name ` set gs"
        proof
          assume "class_name g0 \<in> class_name ` set gs"
          then obtain g' where g': "g' \<in> set gs" "class_name g' = class_name g0" by auto
          with u g0 have "g' = g0" by simp
          with g' False g0 show False by simp
        qed
        with r2 have "t' (class_name g0) = ?tn (class_name g0)" by blast
        then have "t' (class_name g0) = Some d1" by simp
        moreover from i2 None
        have "\<forall>im. d1 im = (if im \<in> set (imts self) then Some (pair_entry fs self g0 im)
                              else None)" by simp
        ultimately show ?thesis using g0 by blast
      qed
    qed
    have lg: "\<forall>x\<in>set (l1 @ l'). \<exists>g im j. x = (class_name g, im, j) \<and> g \<in> set (g0 # gs) \<and>
         im \<in> set (imts self) \<and> j < pair_rows fs self g im"
    proof
      fix x assume "x \<in> set (l1 @ l')"
      then have "x \<in> set l1 \<or> x \<in> set l'" by simp
      then show "\<exists>g im j. x = (class_name g, im, j) \<and> g \<in> set (g0 # gs) \<and>
         im \<in> set (imts self) \<and> j < pair_rows fs self g im"
      proof
        assume "x \<in> set l1"
        with l1 show ?thesis by blast
      next
        assume "x \<in> set l'"
        with r4 obtain g im j where "x = (class_name g, im, j)" "g \<in> set gs"
          "im \<in> set (imts self)" "j < pair_rows fs self g im" by blast
        then show ?thesis by auto
      qed
    qed
    from r fr ok lg show ?thesis
      by (intro exI[of _ t'] exI[of _ "l1 @ l'"] conjI) assumption+
  qed
  then show ?case .
qed

lemma fill_rows_KeyError:
  "k < length outs \<Longrightarrow> outs ! k = Inl KeyError \<Longrightarrow>
   \<forall>j<k. \<forall>e. outs ! j = Inl e \<longrightarrow> e = KeyError \<Longrightarrow>
   \<exists>k'. fill_rows n iloc outs rows = (None, EmptyList, k') \<and> k' \<le> iloc + k + 1"
proof (induction outs arbitrary: k iloc rows)
  case Nil
  then show ?case by simp
next
  case (Cons o1 outs)
  show ?case
  proof (cases o1)
    case (Inl e)
    have "e = KeyError"
    proof (cases k)
      case 0
      with Cons.prems(2) Inl show ?thesis by simp
    next
      case (Suc k2)
      with Cons.prems(3) Inl show ?thesis by auto
    qed
    with Inl show ?thesis by simp
  next
    case (Inr row)
    with Cons.prems(2) obtain k2 where k: "k = Suc k2" by (cases k) auto
    from Cons.prems(1) k have a: "k2 < length outs" by simp
    from Cons.prems(2) k have b: "outs ! k2 = Inl KeyError" by simp
    have c: "\<forall>j<k2. \<forall>e. outs ! j = Inl e \<longrightarrow> e = KeyError"
    proof (intro allI impI)
      fix j e assume "j < k2" "outs ! j = Inl e"
      then have "Suc j < k" "(o1 # outs) ! Suc j = Inl e" using k by simp_all
      with Cons.prems(3) show "e = KeyError" by blast
    qed
    from Cons.IH[OF a b c, of "Suc iloc" "rows[iloc := row]"] Inr k show ?thesis by auto
  qed
qed



lemma fill_rows_success:
  "fst (fill_rows n iloc outs rows) = None \<Longrightarrow> Inl KeyError \<notin> set outs \<Longrightarrow>
   iloc + length outs \<le> length rows \<Longrightarrow>
   \<exists>rs. outs = map Inr rs \<and>
     fst (snd (fill_rows n iloc outs rows)) =
       NdArray n (take iloc rows @ rs @ drop (iloc + length rs) rows)"
proof (induction outs arbitrary: iloc rows)
  case Nil
  have "[] = map Inr ([] :: real list list) \<and>
     fst (snd (fill_rows n iloc [] rows)) =
       NdArray n (take iloc rows @ [] @ drop (iloc + length ([] :: real list list)) rows)"
    by simp
  then show ?case by blast
next
  case (Cons o1 outs)
  show ?case
  proof (cases o1)
    case (Inl e1)
    with Cons.prems(1,2) show ?thesis by (auto split: if_splits)
  next
    case (Inr row)
    from Cons.prems(3) have il: "iloc < length rows" by simp
    from Cons.prems(1) Inr
    have a: "fst (fill_rows n (Suc iloc) outs (rows[iloc := row])) = None" by simp
    from Cons.prems(2) have b: "Inl KeyError \<notin> set outs" by simp
    from Cons.prems(3) have c: "Suc iloc + length outs \<le> length (rows[iloc := row])" by simp
    from Cons.IH[OF a b c] obtain rs where
      rs: "outs = map Inr rs"
      and en: "fst (snd (fill_rows n (Suc iloc) outs (rows[iloc := row]))) =
        NdArray n (take (Suc iloc) (rows[iloc := row]) @ rs @
          drop (Suc iloc + length rs) (rows[iloc := row]))" by blast
    from il have t: "take (Suc iloc) (rows[iloc := row]) = take iloc rows @ [row]"
      by (simp add: take_Suc_conv_app_nth)
    have d: "drop (Suc iloc + length rs) (rows[iloc := row]) = drop (Suc iloc + length rs) rows"
      by simp
    from rs Inr have "o1 # outs = map Inr (row # rs)" by simp
    moreover from en t d Inr
    have "fst (snd (fill_rows n iloc (o1 # outs) rows)) =
       NdArray n (take iloc rows @ (row # rs) @ drop (iloc + length (row # rs)) rows)" by simp
    ultimately show ?thesis by (intro exI[of _ "row # rs"] conjI)
  qed
qed


lemma row_outcome_KeyError:
  "row_outcome fs self g i_m rct = Inl KeyError \<longleftrightarrow> sigma_row fs self g i_m rct = Inl KeyError"
  by (auto simp: row_outcome_def broadcast_to_def split: sum.splits if_splits)

lemma broadcast_to_length:
  "broadcast_to n s = Inr r \<Longrightarrow> length r = n \<and> (length s = n \<longrightarrow> r = s)"
  by (auto simp: broadcast_to_def split: if_splits)

lemma pair_error_not_KeyError: "pair_error fs self g i_m \<noteq> Some KeyError"
  by (simp add: pair_error_def pair_result_def fill_rows_not_KeyError)


lemma pair_KeyError:
  assumes "k < length (rctx self)"
    and "sigma_row fs self g i_m (rctx self ! k) = Inl KeyError"
    and "\<forall>j<k. \<forall>e. row_outcome fs self g i_m (rctx self ! j) = Inl e \<longrightarrow> e = KeyError"
  shows "pair_error fs self g i_m = None \<and> pair_entry fs self g i_m = EmptyList \<and>
         pair_rows fs self g i_m \<le> k + 1"
proof -
  let ?outs = "map (row_outcome fs self g i_m) (rctx self)"
  from assms(1) have a: "k < length ?outs" by simp
  from assms(1,2) have b: "?outs ! k = Inl KeyError" by (simp add: row_outcome_KeyError)
  from assms(1,3) have c: "\<forall>j<k. \<forall>e. ?outs ! j = Inl e \<longrightarrow> e = KeyError" by simp
  from fill_rows_KeyError[OF a b c, of "nsites self" 0
      "replicate (length (rctx self)) (replicate (nsites self) 0)"]
  show ?thesis by (auto simp: pair_error_def pair_entry_def pair_rows_def pair_result_def)
qed


lemma pair_success:
  assumes "pair_error fs self g i_m = None"
    and "\<forall>rct\<in>set (rctx self). sigma_row fs self g i_m rct \<noteq> Inl KeyError"
  shows "\<exists>rs. map (row_outcome fs self g i_m) (rctx self) = map Inr rs \<and>
           pair_entry fs self g i_m = NdArray (nsites self) rs"
proof -
  let ?outs = "map (row_outcome fs self g i_m) (rctx self)"
  let ?z = "replicate (length (rctx self)) (replicate (nsites self) (0::real))"
  from assms(1) have a: "fst (fill_rows (nsites self) 0 ?outs ?z) = None"
    by (simp add: pair_error_def pair_result_def)
  have b: "Inl KeyError \<notin> set ?outs"
  proof
    assume "Inl KeyError \<in> set ?outs"
    then obtain rct where "rct \<in> set (rctx self)" "row_outcome fs self g i_m rct = Inl KeyError"
      by auto
    with assms(2) show False by (simp add: row_outcome_KeyError)
  qed
  have c: "0 + length ?outs \<le> length ?z" by simp
  from fill_rows_success[OF a b c] obtain rs where
    rs: "?outs = map Inr rs"
    and en: "fst (snd (fill_rows (nsites self) 0 ?outs ?z)) =
      NdArray (nsites self) (take 0 ?z @ rs @ drop (0 + length rs) ?z)" by blast
  from rs have "length rs = length (rctx self)" by (metis length_map)
  with en have "pair_entry fs self g i_m = NdArray (nsites self) rs"
    by (simp add: pair_entry_def pair_result_def)
  with rs show ?thesis by blast
qed

lemma collector_facts:
  shows collector_raises:
      "first_error (concat (map (\<lambda>g. map (pair_error fs self g) (imts self)) (gsims self)))
         = Some e \<Longrightarrow> fst (get_ground_motion_values fs self) = Inl e"
    and collector_error:
      "fst (get_ground_motion_values fs self) = Inl e \<Longrightarrow>
       first_error (concat (map (\<lambda>g. map (pair_error fs self g) (imts self)) (gsims self)))
         = Some e"
    and collector_table:
      "fst (get_ground_motion_values fs self) = Inr t \<Longrightarrow> g \<in> set (gsims self) \<Longrightarrow>
       \<forall>g'\<in>set (gsims self). class_name g' = class_name g \<longrightarrow> g' = g \<Longrightarrow>
       i_m \<in> set (imts self) \<Longrightarrow>
       pair_error fs self g i_m = None \<and>
       getitem2 t (class_name g) i_m = Inr (pair_entry fs self g i_m)"
    and collector_log:
      "(class_name g, i_m, j) \<in> set (snd (get_ground_motion_values fs self)) \<Longrightarrow>
       \<forall>g'\<in>set (gsims self). class_name g' = class_name g \<longrightarrow> g' = g \<Longrightarrow>
       j < pair_rows fs self g i_m"
proof -
  let ?Ea = "first_error (concat (map (\<lambda>g. map (pair_error fs self g) (imts self)) (gsims self)))"
  let ?R = "\<lambda>t' l'.
     gsims_loop fs self (gsims self) \<lparr>gmvs = Map.empty, rows_entered = []\<rparr> =
       (?Ea, \<lparr>gmvs = t', rows_entered = [] @ l'\<rparr>) \<and>
     (\<forall>n. n \<notin> class_name ` set (gsims self) \<longrightarrow> t' n = Map.empty n) \<and>
     (?Ea = None \<longrightarrow>
        (\<forall>g\<in>set (gsims self).
           (\<forall>g'\<in>set (gsims self). class_name g' = class_name g \<longrightarrow> g' = g) \<longrightarrow>
           (\<exists>d'. t' (class_name g) = Some d' \<and>
              (\<forall>im. d' im = (if im \<in> set (imts self) then Some (pair_entry fs self g im)
                              else None))))) \<and>
     (\<forall>x\<in>set l'. \<exists>g im j. x = (class_name g, im, j) \<and> g \<in> set (gsims self) \<and>
         im \<in> set (imts self) \<and> j < pair_rows fs self g im)"
  have "\<exists>t' l'. ?R t' l'" by (rule gsims_loop_run)
  then obtain t' where "\<exists>l'. ?R t' l'" ..
  then obtain l' where rr: "?R t' l'" ..
  note r1 = rr[THEN conjunct1]
  note r3 = rr[THEN conjunct2, THEN conjunct2, THEN conjunct1]
  note r4 = rr[THEN conjunct2, THEN conjunct2, THEN conjunct2]
  from r1 have run: "get_ground_motion_values fs self =
       (case ?Ea of None \<Rightarrow> Inr t' | Some e \<Rightarrow> Inl e, l')"
    by (simp add: get_ground_motion_values_def split: option.splits)
  show "?Ea = Some e \<Longrightarrow> fst (get_ground_motion_values fs self) = Inl e"
    by (simp add: run)
  show "fst (get_ground_motion_values fs self) = Inl e \<Longrightarrow> ?Ea = Some e"
    by (simp add: run split: option.splits)
  show "pair_error fs self g i_m = None \<and>
       getitem2 t (class_name g) i_m = Inr (pair_entry fs self g i_m)"
    if a: "fst (get_ground_motion_values fs self) = Inr t" and g: "g \<in> set (gsims self)"
      and u: "\<forall>g'\<in>set (gsims self). class_name g' = class_name g \<longrightarrow> g' = g"
      and im: "i_m \<in> set (imts self)"
  proof -
    from a have en: "?Ea = None" and tt: "t' = t" by (simp_all add: run split: option.splits)
    from g im have "pair_error fs self g i_m \<in>
        set (concat (map (\<lambda>g. map (pair_error fs self g) (imts self)) (gsims self)))" by auto
    with en have pe: "pair_error fs self g i_m = None" by (rule first_error_None)
    from r3 en g u have "\<exists>d'. t' (class_name g) = Some d' \<and>
        (\<forall>im. d' im = (if im \<in> set (imts self) then Some (pair_entry fs self g im) else None))"
      by blast
    then obtain d' where "t' (class_name g) = Some d'"
      and "\<forall>im. d' im = (if im \<in> set (imts self) then Some (pair_entry fs self g im) else None)"
      by (elim exE conjE)
    with im tt have "getitem2 t (class_name g) i_m = Inr (pair_entry fs self g i_m)"
      by (simp add: getitem2_def)
    with pe show ?thesis by simp
  qed
  show "j < pair_rows fs self g i_m"
    if a: "(class_name g, i_m, j) \<in> set (snd (get_ground_motion_values fs self))"
      and u: "\<forall>g'\<in>set (gsims self). class_name g' = class_name g \<longrightarrow> g' = g"
  proof -
    from a have "(class_name g, i_m, j) \<in> set l'" by (simp add: run)
    with r4 have "\<exists>g' im j'. (class_name g, i_m, j) = (class_name g', im, j') \<and>
        g' \<in> set (gsims self) \<and> im \<in> set (imts self) \<and> j' < pair_rows fs self g' im"
      by (rule bspec)
    then obtain g' where "class_name g = class_name g'" "g' \<in> set (gsims self)"
      "j < pair_rows fs self g' i_m" by auto
    with u show ?thesis by auto
  qed
qed

lemma collector_error_pair:
  assumes "fst (get_ground_motion_values fs self) = Inl e"
  shows "\<exists>g\<in>set (gsims self). \<exists>i_m\<in>set (imts self). pair_error fs self g i_m = Some e"
proof -
  from first_error_source[OF collector_error[OF assms]]
  have "Some e \<in> set (concat (map (\<lambda>g. map (pair_error fs self g) (imts self)) (gsims self)))" .
  then obtain g i_m where "g \<in> set (gsims self)" "i_m \<in> set (imts self)"
    "Some e = pair_error fs self g i_m" by auto
  then show ?thesis by metis
qed

lemma sigma_trellis_returns:
  "fst (get_ground_motion_values Inr sigma_trellis) =
     Inr (projr (fst (get_ground_motion_values Inr sigma_trellis)))"
  by (simp add: collect_eval eval_nat_numeral)

lemma row_outcome_unfold:
  "row_outcome fs self g i_m rct =
     (case fs i_m of
        Inl e \<Rightarrow> Inl e
      | Inr im \<Rightarrow>
          (case get_mean_and_stddevs g (sctx self) rct (dctx self) im [stddevs self] of
             Inl e \<Rightarrow> Inl e
           | Inr (mean, sigmas) \<Rightarrow>
               (case sigmas of [] \<Rightarrow> Inl IndexError
                | s0 # rest \<Rightarrow> broadcast_to (nsites self) s0)))"
  by (simp add: row_outcome_def sigma_row_def split: sum.splits prod.splits list.splits)





lemma row_outcome_value_source:
  assumes "row_outcome fs self g i_m rct = Inr row"
  shows "\<exists>im mean s0 rest. fs i_m = Inr im \<and>
     get_mean_and_stddevs g (sctx self) rct (dctx self) im [stddevs self] = Inr (mean, s0 # rest) \<and>
     (length s0 = nsites self \<and> row = s0 \<or>
      length s0 = 1 \<and> row = replicate (nsites self) (hd s0))"
  using assms
  by (auto simp: row_outcome_unfold broadcast_to_def
      split: sum.splits prod.splits list.splits if_splits)

lemma sigma_row_KeyError_source:
  assumes "sigma_row fs self g i_m rct = Inl KeyError"
  shows "fs i_m = Inl KeyError \<or>
     (\<exists>im. fs i_m = Inr im \<and>
        get_mean_and_stddevs g (sctx self) rct (dctx self) im [stddevs self] = Inl KeyError)"
  using assms
  by (auto simp: sigma_row_def split: sum.splits prod.splits list.splits)

lemma gsims_loop_append:
  "gsims_loop fs self (xs @ ys) c =
     (case gsims_loop fs self xs c of
        (None, c') \<Rightarrow> gsims_loop fs self ys c'
      | (Some e, c') \<Rightarrow> (Some e, c'))"
  by (induction xs arbitrary: c) (simp_all split: prod.splits option.splits)

lemma collector_table_last:
  assumes r: "fst (get_ground_motion_values fs self) = Inr t"
    and gs: "gsims self = gs1 @ g # gs2"
    and last: "class_name g \<notin> class_name ` set gs2"
    and im: "i_m \<in> set (imts self)"
  shows "pair_error fs self g i_m = None \<and>
         getitem2 t (class_name g) i_m = Inr (pair_entry fs self g i_m)"
proof -
  let ?c0 = "\<lparr>gmvs = Map.empty, rows_entered = []\<rparr>"
  let ?Et = "first_error (concat (map (\<lambda>g. map (pair_error fs self g) (imts self)) (g # gs2)))"
  obtain o1 c1 where a: "gsims_loop fs self gs1 ?c0 = (o1, c1)"
    by (cases "gsims_loop fs self gs1 ?c0")
  obtain t1 l1 where c1: "c1 = \<lparr>gmvs = t1, rows_entered = l1\<rparr>" by (cases c1)
  let ?R = "\<lambda>t' l'.
     gsims_loop fs self (g # gs2) \<lparr>gmvs = t1, rows_entered = l1\<rparr> =
       (?Et, \<lparr>gmvs = t', rows_entered = l1 @ l'\<rparr>) \<and>
     (\<forall>n. n \<notin> class_name ` set (g # gs2) \<longrightarrow> t' n = t1 n) \<and>
     (?Et = None \<longrightarrow>
        (\<forall>h\<in>set (g # gs2). (\<forall>g'\<in>set (g # gs2). class_name g' = class_name h \<longrightarrow> g' = h) \<longrightarrow>
           (\<exists>d'. t' (class_name h) = Some d' \<and>
              (\<forall>im. d' im = (if im \<in> set (imts self) then Some (pair_entry fs self h im)
                              else None))))) \<and>
     (\<forall>x\<in>set l'. \<exists>g' im j. x = (class_name g', im, j) \<and> g' \<in> set (g # gs2) \<and>
         im \<in> set (imts self) \<and> j < pair_rows fs self g' im)"
  have "\<exists>t' l'. ?R t' l'" by (rule gsims_loop_run)
  then obtain t' where "\<exists>l'. ?R t' l'" ..
  then obtain l' where rr: "?R t' l'" ..
  note r1 = rr[THEN conjunct1]
  note r3 = rr[THEN conjunct2, THEN conjunct2, THEN conjunct1]
  have run: "gsims_loop fs self (gsims self) ?c0 =
      (case o1 of None \<Rightarrow> (?Et, \<lparr>gmvs = t', rows_entered = l1 @ l'\<rparr>) | Some e \<Rightarrow> (Some e, c1))"
    unfolding gs gsims_loop_append a using r1 c1 by (simp split: option.splits)
  from r run have o1: "o1 = None"
    by (cases o1) (simp_all add: get_ground_motion_values_def)
  from r run o1 have E: "?Et = None" and t: "t' = t"
    by (cases ?Et; simp add: get_ground_motion_values_def)+
  have u: "\<forall>g'\<in>set (g # gs2). class_name g' = class_name g \<longrightarrow> g' = g"
  proof (intro ballI impI)
    fix g' assume m: "g' \<in> set (g # gs2)" and c: "class_name g' = class_name g"
    show "g' = g"
    proof (rule ccontr)
      assume "g' \<noteq> g"
      with m have "g' \<in> set gs2" by simp
      then have "class_name g' \<in> class_name ` set gs2" by (rule imageI)
      with c last show False by simp
    qed
  qed
  from r3 E u obtain d' where
    d: "t' (class_name g) = Some d'"
       "\<forall>im. d' im = (if im \<in> set (imts self) then Some (pair_entry fs self g im) else None)"
    by auto
  from d im t have g2: "getitem2 t (class_name g) i_m = Inr (pair_entry fs self g i_m)"
    by (simp add: getitem2_def)
  from im have "pair_error fs self g i_m \<in>
      set (concat (map (\<lambda>g. map (pair_error fs self g) (imts self)) (g # gs2)))" by simp
  from first_error_None[OF E this] g2 show ?thesis by simp
qed


lemma twin_trellis_returns:
  "fst (get_ground_motion_values Inr twin_trellis) =
     Inr (projr (fst (get_ground_motion_values Inr twin_trellis)))"
  by (simp add: collect_eval twin_trellis_def eval_nat_numeral)

text \<open>
  Claim C1. Let the evaluation of row \<open>k\<close> of a pair of a GMPE and an intensity measure
  signal KeyError, no row of the pair before \<open>k\<close> raising another exception. Then the
  rows loop of the pair, started on the fresh array, ends without an exception, leaves the
  empty list as the entry of the pair and enters no row after \<open>k\<close>; the collector never
  raises KeyError; and for a GMPE that is the only one of its class name (the key of the
  table), the entry of the pair in the table returned is the empty list and the trace of
  the whole run has no row of the pair after \<open>k\<close>.
\<close>

theorem unsupported_pair_recovered:
  assumes "k < length (rctx self)"
    and "sigma_row fs self g i_m (rctx self ! k) = Inl KeyError"
    and "\<forall>j<k. \<forall>e. row_outcome fs self g i_m (rctx self ! j) = Inl e \<longrightarrow> e = KeyError"
  shows "(\<forall>t d l. t (class_name g) = Some d \<longrightarrow>
       (\<exists>n\<le>k + 1.
          rctx_loop fs self g i_m 0 (rctx self)
            \<lparr>gmvs = t(class_name g \<mapsto> d(i_m \<mapsto> np_zeros (length (rctx self)) (nsites self))),
             rows_entered = l\<rparr> =
          (None, \<lparr>gmvs = t(class_name g \<mapsto> d(i_m \<mapsto> EmptyList)),
                  rows_entered = l @ map (\<lambda>j. (class_name g, i_m, j)) [0..<n]\<rparr>))) \<and>
    fst (get_ground_motion_values fs self) \<noteq> Inl KeyError \<and>
    (g \<in> set (gsims self) \<and>
     (\<forall>g'\<in>set (gsims self). class_name g' = class_name g \<longrightarrow> g' = g) \<and>
     i_m \<in> set (imts self) \<longrightarrow>
       (\<forall>t. fst (get_ground_motion_values fs self) = Inr t \<longrightarrow>
          getitem2 t (class_name g) i_m = Inr EmptyList) \<and>
       (\<forall>j. (class_name g, i_m, j) \<in> set (snd (get_ground_motion_values fs self)) \<longrightarrow> j \<le> k))"
proof (intro conjI allI impI)
  note pk = pair_KeyError[OF assms]
  from pk have pr: "pair_result fs self g i_m = (None, EmptyList, pair_rows fs self g i_m)"
    by (simp add: pair_result_parts)
  {
    fix t :: gmv_table and d l
    assume td: "t (class_name g) = Some d"
    have "rctx_loop fs self g i_m 0 (rctx self)
            \<lparr>gmvs = t(class_name g \<mapsto> d(i_m \<mapsto> np_zeros (length (rctx self)) (nsites self))),
             rows_entered = l\<rparr> =
          (None, \<lparr>gmvs = t(class_name g \<mapsto> d(i_m \<mapsto> EmptyList)),
                  rows_entered = l @ map (\<lambda>j. (class_name g, i_m, j))
                    [0..<pair_rows fs self g i_m]\<rparr>)"
      by (rule pair_run(2)) (rule td, rule pr)
    with pk show "\<exists>n\<le>k + 1.
          rctx_loop fs self g i_m 0 (rctx self)
            \<lparr>gmvs = t(class_name g \<mapsto> d(i_m \<mapsto> np_zeros (length (rctx self)) (nsites self))),
             rows_entered = l\<rparr> =
          (None, \<lparr>gmvs = t(class_name g \<mapsto> d(i_m \<mapsto> EmptyList)),
                  rows_entered = l @ map (\<lambda>j. (class_name g, i_m, j)) [0..<n]\<rparr>)"
      by (intro exI[of _ "pair_rows fs self g i_m"] conjI) simp_all
  }
  show "fst (get_ground_motion_values fs self) \<noteq> Inl KeyError"
  proof
    assume "fst (get_ground_motion_values fs self) = Inl KeyError"
    from collector_error_pair[OF this] pair_error_not_KeyError show False by blast
  qed
  {
    fix t
    assume h: "g \<in> set (gsims self) \<and>
       (\<forall>g'\<in>set (gsims self). class_name g' = class_name g \<longrightarrow> g' = g) \<and>
       i_m \<in> set (imts self)"
      and r: "fst (get_ground_motion_values fs self) = Inr t"
    from h have h1: "g \<in> set (gsims self)"
      and h2: "\<forall>g'\<in>set (gsims self). class_name g' = class_name g \<longrightarrow> g' = g"
      and h3: "i_m \<in> set (imts self)" by simp_all
    from collector_table[OF r h1 h2 h3] pk
    show "getitem2 t (class_name g) i_m = Inr EmptyList" by simp
  }
  fix j
  assume h: "g \<in> set (gsims self) \<and>
       (\<forall>g'\<in>set (gsims self). class_name g' = class_name g \<longrightarrow> g' = g) \<and>
       i_m \<in> set (imts self)"
    and m: "(class_name g, i_m, j) \<in> set (snd (get_ground_motion_values fs self))"
  from h have h2: "\<forall>g'\<in>set (gsims self). class_name g' = class_name g \<longrightarrow> g' = g" by simp
  from collector_log[OF m h2] pk show "j \<le> k" by simp
qed

theorem unsupported_pair_recovered_witness:
  "fst (get_ground_motion_values Inr sigma_trellis) \<noteq> Inl KeyError \<and>
   getitem2 (projr (fst (get_ground_motion_values Inr sigma_trellis))) ''GmpeB'' ''PGV''
     = Inr EmptyList \<and>
   (''GmpeB'', ''PGV'', 1) \<in> set (snd (get_ground_motion_values Inr sigma_trellis)) \<and>
   (''GmpeB'', ''PGV'', 2) \<notin> set (snd (get_ground_motion_values Inr sigma_trellis))"
proof -
  let ?g = "example_gmpe ''GmpeB''
      (\<lambda>rct im. if im = ''PGV'' \<and> rct = 7 then Inl KeyError else Inr [1, 2, 3, 4])"
  have h: "?g \<in> set (gsims sigma_trellis) \<and>
      (\<forall>g'\<in>set (gsims sigma_trellis). class_name g' = class_name ?g \<longrightarrow> g' = ?g) \<and>
      ''PGV'' \<in> set (imts sigma_trellis)"
    by (simp add: sigma_trellis_def example_gmpe_def)
  have h4: "1 < length (rctx sigma_trellis)" by (simp add: sigma_trellis_def)
  have h5: "sigma_row Inr sigma_trellis ?g ''PGV'' (rctx sigma_trellis ! 1) = Inl KeyError"
    by (simp add: sigma_row_def sigma_trellis_def example_gmpe_def)
  have h6: "\<forall>j<1. \<forall>e. row_outcome Inr sigma_trellis ?g ''PGV'' (rctx sigma_trellis ! j) = Inl e
      \<longrightarrow> e = KeyError"
    by (simp add: row_outcome_def sigma_row_def broadcast_to_def sigma_trellis_def
        example_gmpe_def)
  note th = unsupported_pair_recovered[OF h4 h5 h6]
  note a = th[THEN conjunct2, THEN conjunct1]
  note g = th[THEN conjunct2, THEN conjunct2, rule_format, OF h]
  have c: "class_name ?g = ''GmpeB''" by (simp add: example_gmpe_def)
  from g[THEN conjunct1] sigma_trellis_returns c
  have b: "getitem2 (projr (fst (get_ground_motion_values Inr sigma_trellis))) ''GmpeB'' ''PGV''
     = Inr EmptyList" by metis
  have d: "(''GmpeB'', ''PGV'', 1) \<in> set (snd (get_ground_motion_values Inr sigma_trellis))"
    by (simp add: collect_eval eval_nat_numeral)
  have e: "(''GmpeB'', ''PGV'', 2) \<notin> set (snd (get_ground_motion_values Inr sigma_trellis))"
  proof
    assume "(''GmpeB'', ''PGV'', 2) \<in> set (snd (get_ground_motion_values Inr sigma_trellis))"
    with g[THEN conjunct2] c have "(2::nat) \<le> 1" by metis
    then show False by simp
  qed
  from a b d e show ?thesis by simp
qed



text \<open>
  Claim C6, amended. Let the collector return a table, and take a pair of a GMPE and an
  intensity measure on no row of which the parser or the evaluation signals KeyError, the
  GMPE being the last one of its class name in the list of GMPEs (the class name is the
  key of the table). Then the entry of the pair is an array of shape (number of rupture
  contexts, number of sites) whose row \<open>i\<close> is \<^verbatim>\<open>sigmas[0]\<close>, the first
  standard-deviation array that \<^verbatim>\<open>get_mean_and_stddevs\<close> returns for rupture context
  \<open>i\<close>, which has as many elements as there are sites, or one element that fills the row.
\<close>

theorem supported_pair_entry:
  assumes "fst (get_ground_motion_values from_string self) = Inr t"
    and "gsims self = gs1 @ g # gs2"
    and "class_name g \<notin> class_name ` set gs2"
    and "i_m \<in> set (imts self)"
    and "\<forall>rct\<in>set (rctx self).
           from_string i_m \<noteq> Inl KeyError \<and>
           (\<forall>im. from_string i_m = Inr im \<longrightarrow>
              get_mean_and_stddevs g (sctx self) rct (dctx self) im [stddevs self]
                \<noteq> Inl KeyError)"
  shows "\<exists>rows. getitem2 t (class_name g) i_m = Inr (NdArray (nsites self) rows) \<and>
     shape (NdArray (nsites self) rows) = Some (length (rctx self), nsites self) \<and>
     (\<forall>i<length (rctx self). \<exists>im mean s0 rest.
        from_string i_m = Inr im \<and>
        get_mean_and_stddevs g (sctx self) (rctx self ! i) (dctx self) im [stddevs self]
          = Inr (mean, s0 # rest) \<and>
        (length s0 = nsites self \<and> rows ! i = s0 \<or>
         length s0 = 1 \<and> rows ! i = replicate (nsites self) (hd s0)))"
proof -
  from collector_table_last[OF assms(1-4)]
  have pe: "pair_error from_string self g i_m = None"
    and gt: "getitem2 t (class_name g) i_m = Inr (pair_entry from_string self g i_m)"
    by simp_all
  have nk: "\<forall>rct\<in>set (rctx self). sigma_row from_string self g i_m rct \<noteq> Inl KeyError"
  proof (intro ballI notI)
    fix rct assume m: "rct \<in> set (rctx self)"
      and k: "sigma_row from_string self g i_m rct = Inl KeyError"
    from sigma_row_KeyError_source[OF k] assms(5) m show False by blast
  qed
  from pair_success[OF pe nk] obtain rs where
    rs: "map (row_outcome from_string self g i_m) (rctx self) = map Inr rs"
    and en: "pair_entry from_string self g i_m = NdArray (nsites self) rs" by blast
  from rs have len: "length rs = length (rctx self)" by (metis length_map)
  have rows: "\<forall>i<length (rctx self). \<exists>im mean s0 rest.
        from_string i_m = Inr im \<and>
        get_mean_and_stddevs g (sctx self) (rctx self ! i) (dctx self) im [stddevs self]
          = Inr (mean, s0 # rest) \<and>
        (length s0 = nsites self \<and> rs ! i = s0 \<or>
         length s0 = 1 \<and> rs ! i = replicate (nsites self) (hd s0))"
  proof (intro allI impI)
    fix i assume i: "i < length (rctx self)"
    with rs len have "row_outcome from_string self g i_m (rctx self ! i) = Inr (rs ! i)"
      by (metis nth_map)
    then show "\<exists>im mean s0 rest.
        from_string i_m = Inr im \<and>
        get_mean_and_stddevs g (sctx self) (rctx self ! i) (dctx self) im [stddevs self]
          = Inr (mean, s0 # rest) \<and>
        (length s0 = nsites self \<and> rs ! i = s0 \<or>
         length s0 = 1 \<and> rs ! i = replicate (nsites self) (hd s0))"
      by (rule row_outcome_value_source)
  qed
  from gt en len rows show ?thesis
    by (intro exI[of _ rs] conjI) simp_all
qed

theorem supported_pair_entry_witness:
  "get_mean_and_stddevs (example_gmpe ''GmpeA'' (\<lambda>rct im. Inr [5, 6, 7, 8]))
       (sctx sigma_trellis) 6 (dctx sigma_trellis) ''PGA'' [stddevs sigma_trellis]
     = Inr ([105, 106, 107, 108], [[5, 6, 7, 8]]) \<and>
   getitem2 (projr (fst (get_ground_motion_values Inr sigma_trellis))) ''GmpeA'' ''PGA''
     = Inr (NdArray 4 [[5, 6, 7, 8], [5, 6, 7, 8], [5, 6, 7, 8]]) \<and>
   shape (NdArray 4 [[5, 6, 7, 8], [5, 6, 7, 8], [5, 6, 7, 8]]) = Some (3, 4) \<and>
   getitem2 (projr (fst (get_ground_motion_values Inr sigma_trellis))) ''GmpeB'' ''PGV''
     = Inr EmptyList"
proof -
  let ?g = "example_gmpe ''GmpeA'' (\<lambda>rct im. Inr [5, 6, 7, 8])"
  let ?b = "example_gmpe ''GmpeB''
                 (\<lambda>rct im. if im = ''PGV'' \<and> rct = 7 then Inl KeyError else Inr [1, 2, 3, 4])"
  let ?t = "projr (fst (get_ground_motion_values Inr sigma_trellis))"
  have h1: "gsims sigma_trellis = [] @ ?g # [?b]" by (simp add: sigma_trellis_def)
  have h2: "class_name ?g \<notin> class_name ` set [?b]" by (simp add: example_gmpe_def)
  have h3: "''PGA'' \<in> set (imts sigma_trellis)" by (simp add: sigma_trellis_def)
  have h4: "\<forall>rct\<in>set (rctx sigma_trellis).
           Inr ''PGA'' \<noteq> (Inl KeyError :: py_error + string) \<and>
           (\<forall>im. Inr ''PGA'' = (Inr im :: py_error + string) \<longrightarrow>
              get_mean_and_stddevs ?g (sctx sigma_trellis) rct (dctx sigma_trellis) im
                [stddevs sigma_trellis] \<noteq> Inl KeyError)"
    by (simp add: sigma_trellis_def example_gmpe_def)
  from supported_pair_entry[OF sigma_trellis_returns h1 h2 h3 h4]
  obtain rows where
    r: "getitem2 ?t (class_name ?g) ''PGA'' = Inr (NdArray (nsites sigma_trellis) rows)"
    and s: "shape (NdArray (nsites sigma_trellis) rows)
       = Some (length (rctx sigma_trellis), nsites sigma_trellis)" by blast
  have m: "get_mean_and_stddevs ?g (sctx sigma_trellis) 6 (dctx sigma_trellis) ''PGA''
       [stddevs sigma_trellis] = Inr ([105, 106, 107, 108], [[5, 6, 7, 8]])"
    by (simp add: example_gmpe_def)
  have v: "getitem2 ?t ''GmpeA'' ''PGA'' = Inr (NdArray 4 [[5, 6, 7, 8], [5, 6, 7, 8], [5, 6, 7, 8]])"
    by (simp add: collect_eval eval_nat_numeral)
  have c: "class_name ?g = ''GmpeA''" by (simp add: example_gmpe_def)
  from r v c have "rows = [[5, 6, 7, 8], [5, 6, 7, 8], [5, 6, 7, 8]]" by simp
  with s have "shape (NdArray 4 [[5, 6, 7, 8], [5, 6, 7, 8], [5, 6, 7, 8]]) = Some (3, 4)"
    by (simp add: sigma_trellis_def)
  moreover have "getitem2 ?t ''GmpeB'' ''PGV'' = Inr EmptyList"
    by (simp add: collect_eval eval_nat_numeral)
  ultimately show ?thesis using v m by simp
qed

text \<open>
  Of two GMPEs of one class name, the first supports \<^verbatim>\<open>PGA\<close> for both rupture contexts
  and the second signals KeyError: the table returned has the empty list as the entry of
  the class name and \<^verbatim>\<open>PGA\<close>, although no row of the first pair signals KeyError.
\<close>

theorem supported_pair_entry_counterexample:
  "gsims twin_trellis = [example_gmpe ''GmpeA'' (\<lambda>rct im. Inr [5, 6, 7, 8]),
                         example_gmpe ''GmpeA'' (\<lambda>rct im. Inl KeyError)] \<and>
   class_name (example_gmpe ''GmpeA'' (\<lambda>rct im. Inr [5, 6, 7, 8])) = ''GmpeA'' \<and>
   imts twin_trellis = [''PGA''] \<and> rctx twin_trellis = [6, 7] \<and>
   get_mean_and_stddevs (example_gmpe ''GmpeA'' (\<lambda>rct im. Inr [5, 6, 7, 8]))
       (sctx twin_trellis) 6 (dctx twin_trellis) ''PGA'' [stddevs twin_trellis]
     = Inr ([105, 106, 107, 108], [[5, 6, 7, 8]]) \<and>
   get_mean_and_stddevs (example_gmpe ''GmpeA'' (\<lambda>rct im. Inr [5, 6, 7, 8]))
       (sctx twin_trellis) 7 (dctx twin_trellis) ''PGA'' [stddevs twin_trellis]
     = Inr ([105, 106, 107, 108], [[5, 6, 7, 8]]) \<and>
   fst (get_ground_motion_values Inr twin_trellis) =
     Inr (projr (fst (get_ground_motion_values Inr twin_trellis))) \<and>
   getitem2 (projr (fst (get_ground_motion_values Inr twin_trellis))) ''GmpeA'' ''PGA''
     = Inr EmptyList"
  by (simp add: collect_eval twin_trellis_def eval_nat_numeral)

end
